theory Spec2Isabelle
  imports Main "HOL-Library.Multiset"
begin

section \<open>Data loading for parallel corpora (src/data/dataloader.py)\<close>

text \<open>
  A shallow embedding of \<^verbatim>\<open>dataloader.py\<close>. Python lists are HOL lists, Python's
  unbounded integers are \<open>int\<close> (\<open>nat\<close> where the source value is a length or a
  position returned by \<^verbatim>\<open>list.index\<close>), exceptions are the left summand of a result
  type, and the module global \<^verbatim>\<open>PAD_WORD\<close> is a field of an explicit state record.
  One-dimensional tensors are lists of their entries; the ids that \<^verbatim>\<open>preprocess\<close>
  stores are integers rounded to single precision, which are integers again, so the
  entries are \<open>int\<close>. A two-dimensional tensor is the list of its rows.
\<close>

subsection \<open>Exceptions\<close>

text \<open>
  The built-in exception classes the module can raise. \<^verbatim>\<open>list.index\<close>, \<^verbatim>\<open>max\<close> of an
  empty list and unpacking an empty \<^verbatim>\<open>zip\<close> raise \<^verbatim>\<open>ValueError\<close>; list subscripting
  raises \<^verbatim>\<open>IndexError\<close>; opening and reading a file raise \<^verbatim>\<open>FileNotFoundError\<close>,
  \<^verbatim>\<open>IsADirectoryError\<close>, \<^verbatim>\<open>PermissionError\<close> or \<^verbatim>\<open>UnicodeDecodeError\<close>. In Python's
  class hierarchy \<^verbatim>\<open>LookupError\<close> is the base class of \<^verbatim>\<open>IndexError\<close> and \<^verbatim>\<open>KeyError\<close>
  only.
\<close>

datatype error =
  ValueError | IndexError | KeyError
  | FileNotFoundError | IsADirectoryError | PermissionError | UnicodeDecodeError

fun is_LookupError :: "error \<Rightarrow> bool" where
  "is_LookupError IndexError = True"
| "is_LookupError KeyError = True"
| "is_LookupError ValueError = False"
| "is_LookupError FileNotFoundError = False"
| "is_LookupError IsADirectoryError = False"
| "is_LookupError PermissionError = False"
| "is_LookupError UnicodeDecodeError = False"

subsection \<open>Built-in operations of Python used by the module\<close>

text \<open>\<^verbatim>\<open>xs.index(x)\<close>: the position of the first occurrence, \<^verbatim>\<open>ValueError\<close> if there is none.\<close>

fun index :: "'a list \<Rightarrow> 'a \<Rightarrow> error + nat" where
  "index [] x = Inl ValueError"
| "index (y # ys) x =
     (if y = x then Inr 0
      else (case index ys x of Inl e \<Rightarrow> Inl e | Inr n \<Rightarrow> Inr (Suc n)))"

text \<open>
  \<^verbatim>\<open>str.isspace\<close> on one character, for the code points below 256:
  tab, line feed, vertical tab, form feed, carriage return, the four separators
  \<^verbatim>\<open>0x1c..0x1f\<close>, space, \<^verbatim>\<open>0x85\<close> and \<^verbatim>\<open>0xa0\<close>.
\<close>

definition isspace :: "char \<Rightarrow> bool" where
  "isspace c \<longleftrightarrow> c \<in> {CHR 0x09, CHR 0x0A, CHR 0x0B, CHR 0x0C, CHR 0x0D,
                      CHR 0x1C, CHR 0x1D, CHR 0x1E, CHR 0x1F, CHR 0x20, CHR 0x85, CHR 0xA0}"

text \<open>
  \<^verbatim>\<open>s.split()\<close> without arguments: the maximal runs of non-whitespace characters,
  in order; no empty strings. The first argument is the token being read.
\<close>

fun split_from :: "string \<Rightarrow> string \<Rightarrow> string list" where
  "split_from cur [] = (if cur = [] then [] else [cur])"
| "split_from cur (c # cs) =
     (if isspace c then (if cur = [] then split_from [] cs else cur # split_from [] cs)
      else split_from (cur @ [c]) cs)"

definition str_split :: "string \<Rightarrow> string list" where
  "str_split s = split_from [] s"

text \<open>
  \<^verbatim>\<open>s.splitlines()\<close> for the code points below 256: a line ends at line feed,
  carriage return (with a following line feed taken as part of the same break),
  vertical tab, form feed, \<^verbatim>\<open>0x1c\<close>, \<^verbatim>\<open>0x1d\<close>, \<^verbatim>\<open>0x1e\<close> or \<^verbatim>\<open>0x85\<close>; the breaks are
  dropped and a final break opens no further line.
\<close>

definition is_linebreak :: "char \<Rightarrow> bool" where
  "is_linebreak c \<longleftrightarrow> c \<in> {CHR 0x0A, CHR 0x0B, CHR 0x0C, CHR 0x0D,
                           CHR 0x1C, CHR 0x1D, CHR 0x1E, CHR 0x85}"

fun splitlines_from :: "string \<Rightarrow> string \<Rightarrow> string list" where
  "splitlines_from cur [] = (if cur = [] then [] else [cur])"
| "splitlines_from cur [c] = (if is_linebreak c then [cur] else [cur @ [c]])"
| "splitlines_from cur (c # d # cs) =
     (if c = CHR 0x0D \<and> d = CHR 0x0A then cur # splitlines_from [] cs
      else if is_linebreak c then cur # splitlines_from [] (d # cs)
      else splitlines_from (cur @ [c]) (d # cs))"

definition splitlines :: "string \<Rightarrow> string list" where
  "splitlines s = splitlines_from [] s"

text \<open>
  Subscripting a list, \<^verbatim>\<open>xs[i]\<close>: positions \<open>0 .. len - 1\<close> are read directly, positions
  \<open>-len .. -1\<close> are read from the end, every other position raises \<^verbatim>\<open>IndexError\<close>.
\<close>

definition getitem_list :: "'a list \<Rightarrow> int \<Rightarrow> error + 'a" where
  "getitem_list xs i =
     (if 0 \<le> i \<and> i < int (length xs) then Inr (xs ! nat i)
      else if i < 0 \<and> - int (length xs) \<le> i then Inr (xs ! nat (int (length xs) + i))
      else Inl IndexError)"

text \<open>\<^verbatim>\<open>max(xs)\<close>: \<^verbatim>\<open>ValueError\<close> on the empty list.\<close>

fun py_max :: "nat list \<Rightarrow> error + nat" where
  "py_max [] = Inl ValueError"
| "py_max (x # xs) = Inr (fold max xs x)"

text \<open>
  \<^verbatim>\<open>xs.sort(key=k, reverse=r)\<close>. The built-in sort is stable, and a stable sort by a
  key is determined by its specification, so the stable insertion sort \<open>sort_key\<close>
  computes the same list. With \<^verbatim>\<open>reverse=True\<close> the list is reversed, sorted stably
  in ascending order and reversed again, which is how the interpreter keeps the
  descending sort stable.
\<close>

definition list_sort :: "('a \<Rightarrow> nat) \<Rightarrow> bool \<Rightarrow> 'a list \<Rightarrow> 'a list" where
  "list_sort key reverse xs =
     (if reverse then rev (sort_key key (rev xs)) else sort_key key xs)"

text \<open>
  The file system as far as the module reads it: \<open>fs path\<close> is the outcome of
  \<^verbatim>\<open>open(path).read()\<close>, the text of the file or the exception that opening or
  reading it raises.
\<close>

type_synonym filesystem = "string \<Rightarrow> error + string"

definition read_file :: "filesystem \<Rightarrow> string \<Rightarrow> error + string" where
  "read_file fs path = fs path"

text \<open>
  \<^verbatim>\<open>torch.Tensor(xs)\<close> on a list of integers stores every entry as a single precision
  number: 24 significant bits, the nearest representable value, a tie going to the
  value whose last significant bit is zero. \<open>float32_exponent n\<close> is the number of low
  bits of \<open>n\<close> that do not fit. The entries here are positions in a list, far
  below the largest single precision number.
\<close>

function float32_exponent :: "nat \<Rightarrow> nat" where
  "float32_exponent n = (if n < 2 ^ 24 then 0 else Suc (float32_exponent (n div 2)))"
  by pat_completeness auto
termination
  by (relation "measure (\<lambda>n. n)") auto

definition float32_nat :: "nat \<Rightarrow> nat" where
  "float32_nat n =
     (let e = float32_exponent n; q = n div 2 ^ e; r = n mod 2 ^ e
      in if 2 ^ e < 2 * r \<or> (2 * r = 2 ^ e \<and> odd q) then (q + 1) * 2 ^ e else q * 2 ^ e)"

definition float32 :: "int \<Rightarrow> int" where
  "float32 i = (if 0 \<le> i then int (float32_nat (nat i)) else - int (float32_nat (nat (- i))))"

definition Tensor :: "int list \<Rightarrow> int list" where
  "Tensor xs = map float32 xs"

subsection \<open>Module state\<close>

text \<open>Line 7: \<^verbatim>\<open>PAD_WORD = -1\<close>, the only module-level variable.\<close>

record globals =
  PAD_WORD :: int

definition module_init :: globals where
  "module_init = \<lparr>PAD_WORD = - 1\<rparr>"

subsection \<open>ParallelDataset\<close>

record ParallelDataset =
  src_seqs :: "string list"
  trg_seqs :: "string list"
  num_total_seqs :: nat
  src_word2id :: "string list"
  trg_word2id :: "string list"
  pad_index :: nat

text \<open>
  \<^verbatim>\<open>__init__\<close> (lines 11-18): both files are read and split into lines, the source
  file first; the number of sequences is the number of source lines; the last
  statement looks \<^verbatim>\<open><pad>\<close> up in the source vocabulary.
\<close>

definition ParallelDataset_init ::
  "filesystem \<Rightarrow> string \<Rightarrow> string \<Rightarrow> string list \<Rightarrow> string list \<Rightarrow> error + ParallelDataset" where
  "ParallelDataset_init fs src_path trg_path s_word2id t_word2id =
     (case read_file fs src_path of
        Inl e \<Rightarrow> Inl e
      | Inr src_text \<Rightarrow>
          (case read_file fs trg_path of
             Inl e \<Rightarrow> Inl e
           | Inr trg_text \<Rightarrow>
               (case index s_word2id ''<pad>'' of
                  Inl e \<Rightarrow> Inl e
                | Inr p \<Rightarrow>
                    Inr \<lparr>src_seqs = splitlines src_text,
                         trg_seqs = splitlines trg_text,
                         num_total_seqs = length (splitlines src_text),
                         src_word2id = s_word2id,
                         trg_word2id = t_word2id,
                         pad_index = p\<rparr>)))"

text \<open>\<^verbatim>\<open>__len__\<close> (lines 28-29).\<close>

definition len_dataset :: "ParallelDataset \<Rightarrow> nat" where
  "len_dataset ds = num_total_seqs ds"

text \<open>
  The list comprehension of line 36: the tokens are looked up from left to right
  and the first failing lookup ends the evaluation.
\<close>

fun index_all :: "string list \<Rightarrow> string list \<Rightarrow> error + int list" where
  "index_all word2id [] = Inr []"
| "index_all word2id (token # tokens) =
     (case index word2id token of
        Inl e \<Rightarrow> Inl e
      | Inr n \<Rightarrow> (case index_all word2id tokens of
                   Inl e \<Rightarrow> Inl e
                 | Inr ns \<Rightarrow> Inr (int n # ns)))"

text \<open>
  \<^verbatim>\<open>preprocess\<close> (lines 31-39). The lookups run in the order of the source:
  \<^verbatim>\<open><s>\<close>, the tokens, \<^verbatim>\<open></s>\<close>; line 38 turns the list into a single precision
  tensor. The parameter \<^verbatim>\<open>trg\<close> is not used by the body.
\<close>

definition preprocess :: "string \<Rightarrow> string list \<Rightarrow> error + int list" where
  "preprocess sequence word2id =
     (let tokens = str_split sequence in
      case index word2id ''<s>'' of
        Inl e \<Rightarrow> Inl e
      | Inr s \<Rightarrow>
          (case index_all word2id tokens of
             Inl e \<Rightarrow> Inl e
           | Inr ids \<Rightarrow>
               (case index word2id ''</s>'' of
                  Inl e \<Rightarrow> Inl e
                | Inr e \<Rightarrow> Inr (Tensor ([int s] @ ids @ [int e])))))"

text \<open>\<^verbatim>\<open>__getitem__\<close> (lines 20-26): both lines are fetched before either is encoded.\<close>

definition getitem :: "ParallelDataset \<Rightarrow> int \<Rightarrow> error + (int list \<times> int list)" where
  "getitem ds i =
     (case getitem_list (src_seqs ds) i of
        Inl e \<Rightarrow> Inl e
      | Inr src_seq \<Rightarrow>
          (case getitem_list (trg_seqs ds) i of
             Inl e \<Rightarrow> Inl e
           | Inr trg_seq \<Rightarrow>
               (case preprocess src_seq (src_word2id ds) of
                  Inl e \<Rightarrow> Inl e
                | Inr s \<Rightarrow>
                    (case preprocess trg_seq (trg_word2id ds) of
                       Inl e \<Rightarrow> Inl e
                     | Inr t \<Rightarrow> Inr (s, t)))))"

subsection \<open>parallel_collate_fn\<close>

text \<open>
  The loop of \<^verbatim>\<open>merge\<close> (lines 60-62), \<open>i\<close> being the counter of \<^verbatim>\<open>enumerate\<close>:
  the slice assignment \<^verbatim>\<open>padded_seqs[i, :end] = seq[:end]\<close> replaces the first
  \<^verbatim>\<open>end\<close> entries of row \<open>i\<close>. Both slices have \<^verbatim>\<open>end\<close> entries, since \<^verbatim>\<open>end\<close> is
  the length of \<^verbatim>\<open>seq\<close> and no row is shorter than the longest sequence.
\<close>

fun merge_rows :: "int list list \<Rightarrow> nat \<Rightarrow> int list list \<Rightarrow> nat list \<Rightarrow> int list list" where
  "merge_rows padded_seqs i [] lengths = padded_seqs"
| "merge_rows padded_seqs i (seq # rest) lengths =
     (let end' = lengths ! i in
      merge_rows (padded_seqs[i := take end' seq @ drop end' (padded_seqs ! i)])
        (Suc i) rest lengths)"

text \<open>
  \<^verbatim>\<open>merge\<close> (lines 57-63). The grid is allocated with \<^verbatim>\<open>len(sequences)\<close> rows and
  \<^verbatim>\<open>max(lengths)\<close> columns and filled with the current value of the global
  \<^verbatim>\<open>PAD_WORD\<close>.
\<close>

definition merge :: "globals \<Rightarrow> int list list \<Rightarrow> error + (int list list \<times> nat list)" where
  "merge g sequences =
     (let lengths = map length sequences in
      case py_max lengths of
        Inl e \<Rightarrow> Inl e
      | Inr m \<Rightarrow>
          Inr (merge_rows (replicate (length sequences) (replicate m (PAD_WORD g)))
                 0 sequences lengths,
               lengths))"

record batch =
  src_padded :: "int list list"
  src_lengths :: "nat list"
  trg_padded :: "int list list"
  trg_lengths :: "nat list"

text \<open>
  \<^verbatim>\<open>parallel_collate_fn\<close> (lines 42-75). The call returns the module state, the
  caller's list as the in-place sort of line 66 leaves it, and the result. Unpacking
  \<^verbatim>\<open>zip(*data)\<close> into two names (line 69) raises \<^verbatim>\<open>ValueError\<close> when the list is
  empty; the list has been sorted by then.
\<close>

definition parallel_collate_fn ::
  "globals \<Rightarrow> (int list \<times> int list) list
     \<Rightarrow> globals \<times> (int list \<times> int list) list \<times> (error + batch)" where
  "parallel_collate_fn g data =
     (let data' = list_sort (\<lambda>x. length (fst x)) True data in
      if data' = [] then (g, data', Inl ValueError)
      else
        (case merge g (map fst data') of
           Inl e \<Rightarrow> (g, data', Inl e)
         | Inr (s_seqs, s_lengths) \<Rightarrow>
             (case merge g (map snd data') of
                Inl e \<Rightarrow> (g, data', Inl e)
              | Inr (t_seqs, t_lengths) \<Rightarrow>
                  (g, data',
                   Inr \<lparr>src_padded = s_seqs, src_lengths = s_lengths,
                        trg_padded = t_seqs, trg_lengths = t_lengths\<rparr>))))"

subsection \<open>The loader of the framework\<close>

text \<open>
  Modelled from the spec: \<^verbatim>\<open>torch.utils.data.DataLoader\<close> is the framework's class
  and not part of the repository. Following sections 4.4, 5 and 8 of the
  specification, a loader without sampler and with \<^verbatim>\<open>shuffle=False\<close> walks the
  indices \<^verbatim>\<open>0 .. len(dataset) - 1\<close> in order in groups of \<^verbatim>\<open>batch_size\<close> (the last
  group may be smaller), fetches each pair of a group through \<^verbatim>\<open>__getitem__\<close> and hands
  the list to the collate function; an exception raised while a group is fetched or
  assembled ends the iteration. A batch size that is not positive is rejected when
  the loader is built.
\<close>

record DataLoader =
  dataset :: ParallelDataset
  batch_size :: nat

text \<open>
  Modelled from the spec: the constructor of the framework's loader, which keeps the
  data set and the batch size.
\<close>

definition DataLoader_new :: "ParallelDataset \<Rightarrow> int \<Rightarrow> error + DataLoader" where
  "DataLoader_new ds bs =
     (if bs \<le> 0 then Inl ValueError else Inr \<lparr>dataset = ds, batch_size = nat bs\<rparr>)"

text \<open>
  Modelled from the spec: the groups of \<^verbatim>\<open>batch_size\<close> consecutive indices that the
  framework's loader walks, the last one possibly smaller.
\<close>

function batch_indices :: "nat \<Rightarrow> 'a list \<Rightarrow> 'a list list" where
  "batch_indices bs idxs =
     (if bs = 0 \<or> idxs = [] then [] else take bs idxs # batch_indices bs (drop bs idxs))"
  by pat_completeness auto
termination
  by (relation "measure (\<lambda>(bs, idxs). length idxs)") auto

text \<open>
  Modelled from the spec: the framework's loader fetches the pairs of one group in
  order through \<^verbatim>\<open>__getitem__\<close>; the first exception ends the fetch.
\<close>

fun fetch_items :: "ParallelDataset \<Rightarrow> int list \<Rightarrow> error + (int list \<times> int list) list" where
  "fetch_items ds [] = Inr []"
| "fetch_items ds (i # rest) =
     (case getitem ds i of
        Inl e \<Rightarrow> Inl e
      | Inr p \<Rightarrow> (case fetch_items ds rest of
                   Inl e \<Rightarrow> Inl e
                 | Inr ps \<Rightarrow> Inr (p # ps)))"

text \<open>
  Modelled from the spec: the framework's loader hands the fetched pairs of one group to
  the collate function, here \<^verbatim>\<open>parallel_collate_fn\<close>.
\<close>

definition fetch :: "globals \<Rightarrow> ParallelDataset \<Rightarrow> int list \<Rightarrow> globals \<times> (error + batch)" where
  "fetch g ds idxs =
     (case fetch_items ds idxs of
        Inl e \<Rightarrow> (g, Inl e)
      | Inr data \<Rightarrow> (case parallel_collate_fn g data of (g', data', r) \<Rightarrow> (g', r)))"

text \<open>
  Modelled from the spec: driving the iterator of the framework's loader to its end
  gives the batches yielded so far and, when the iteration was ended by an exception,
  that exception.
\<close>

fun run_batches ::
  "globals \<Rightarrow> ParallelDataset \<Rightarrow> int list list \<Rightarrow> globals \<times> batch list \<times> error option" where
  "run_batches g ds [] = (g, [], None)"
| "run_batches g ds (idxs # rest) =
     (case fetch g ds idxs of
        (g', Inl e) \<Rightarrow> (g', [], Some e)
      | (g', Inr b) \<Rightarrow>
          (case run_batches g' ds rest of (g'', bs, r) \<Rightarrow> (g'', b # bs, r)))"

text \<open>
  Modelled from the spec: the framework's loader without sampler and with
  \<^verbatim>\<open>shuffle=False\<close> walks the indices \<open>0 .. len(dataset) - 1\<close> in order.
\<close>

definition iterate :: "globals \<Rightarrow> DataLoader \<Rightarrow> globals \<times> batch list \<times> error option" where
  "iterate g ldr =
     run_batches g (dataset ldr)
       (batch_indices (batch_size ldr) (map int [0 ..< len_dataset (dataset ldr)]))"

subsection \<open>Loader factories\<close>

text \<open>
  \<^verbatim>\<open>get_valid_parallel_loader\<close> (lines 105-113): the data set is built, then the
  global \<^verbatim>\<open>PAD_WORD\<close> is assigned, then the loader is built.
\<close>

definition get_valid_parallel_loader ::
  "globals \<Rightarrow> filesystem \<Rightarrow> string \<Rightarrow> string \<Rightarrow> string list \<Rightarrow> string list \<Rightarrow> int
     \<Rightarrow> globals \<times> (error + DataLoader)" where
  "get_valid_parallel_loader g fs src_path trg_path s_word2id t_word2id bs =
     (case ParallelDataset_init fs src_path trg_path s_word2id t_word2id of
        Inl e \<Rightarrow> (g, Inl e)
      | Inr ds \<Rightarrow>
          (case index s_word2id ''<pad>'' of
             Inl e \<Rightarrow> (g, Inl e)
           | Inr p \<Rightarrow>
               (let g' = g\<lparr>PAD_WORD := int p\<rparr> in
                case DataLoader_new ds bs of
                  Inl e \<Rightarrow> (g', Inl e)
                | Inr ldr \<Rightarrow> (g', Inr ldr))))"

text \<open>
  \<^verbatim>\<open>get_train_parallel_loader\<close> (lines 78-103). The distributed sampler and the
  loader built over it are the framework's; their constructors are the parameters
  \<open>mk_sampler\<close> and \<open>mk_loader\<close>. The global is assigned (line 91) after the data set
  is built and before either constructor runs.
\<close>

definition get_train_parallel_loader ::
  "(ParallelDataset \<Rightarrow> int \<Rightarrow> int \<Rightarrow> error + 's) \<Rightarrow> (ParallelDataset \<Rightarrow> int \<Rightarrow> 's \<Rightarrow> error + 'l)
     \<Rightarrow> globals \<Rightarrow> filesystem \<Rightarrow> string \<Rightarrow> string \<Rightarrow> string list \<Rightarrow> string list
     \<Rightarrow> int \<Rightarrow> int \<Rightarrow> int \<Rightarrow> globals \<times> (error + ('l \<times> 's))" where
  "get_train_parallel_loader mk_sampler mk_loader g fs src_path trg_path s_word2id t_word2id
       bs world_size rank =
     (case ParallelDataset_init fs src_path trg_path s_word2id t_word2id of
        Inl e \<Rightarrow> (g, Inl e)
      | Inr ds \<Rightarrow>
          (case index s_word2id ''<pad>'' of
             Inl e \<Rightarrow> (g, Inl e)
           | Inr p \<Rightarrow>
               (let g' = g\<lparr>PAD_WORD := int p\<rparr> in
                case mk_sampler ds world_size rank of
                  Inl e \<Rightarrow> (g', Inl e)
                | Inr sampler \<Rightarrow>
                    (case mk_loader ds bs sampler of
                       Inl e \<Rightarrow> (g', Inl e)
                     | Inr data_loader \<Rightarrow> (g', Inr (data_loader, sampler))))))"

text \<open>The vocabulary of the scenario of section 8 of the specification.\<close>

definition scenario_vocab :: "string list" where
  "scenario_vocab = [''<pad>'', ''<s>'', ''</s>'', ''i'', ''am'', ''fine'']"

subsection \<open>Specification predicates and example data\<close>

text \<open>
  \<open>is_padding_of pad seqs grid lengths\<close>: the grid has one row per sequence, all rows
  have as many columns as the longest sequence has entries, \<open>lengths\<close> lists the true
  lengths, and each row holds its sequence followed by \<open>pad\<close> only.
\<close>

definition is_padding_of :: "int \<Rightarrow> int list list \<Rightarrow> int list list \<Rightarrow> nat list \<Rightarrow> bool" where
  "is_padding_of pad seqs grid lengths \<longleftrightarrow>
     length grid = length seqs \<and> length lengths = length seqs \<and>
     (\<forall>i < length seqs.
        lengths ! i = length (seqs ! i) \<and>
        length (grid ! i) = Max (set (map length seqs)) \<and>
        lengths ! i \<le> length (grid ! i) \<and>
        (\<forall>j < lengths ! i. grid ! i ! j = seqs ! i ! j) \<and>
        (\<forall>j. lengths ! i \<le> j \<and> j < length (grid ! i) \<longrightarrow> grid ! i ! j = pad))"

definition example_pairs :: "(int list \<times> int list) list" where
  "example_pairs =
     [([1, 3, 2], [1, 2]), ([1, 3, 4, 5, 2], [1, 5, 2]), ([1, 4, 2], [1, 3, 3, 3, 2])]"

text \<open>
  Two files whose line counts differ, and a data set whose second source line
  holds a word that the vocabulary does not list.
\<close>

definition mismatched_fs :: filesystem where
  "mismatched_fs =
     (\<lambda>path.
        if path = ''src.txt'' then Inr (''i am'' @ [CHR 0x0A] @ ''fine'' @ [CHR 0x0A])
        else if path = ''trg.txt'' then Inr (''i'' @ [CHR 0x0A])
        else Inl FileNotFoundError)"

definition oov_dataset :: ParallelDataset where
  "oov_dataset =
     \<lparr>src_seqs = [''i am fine'', ''i am zebra''], trg_seqs = [''fine'', ''am''],
      num_total_seqs = 2, src_word2id = scenario_vocab, trg_word2id = scenario_vocab,
      pad_index = 0\<rparr>"

text \<open>
  Two aligned files of five lines each, a second vocabulary that lists \<^verbatim>\<open><pad>\<close> at
  another position, the data set read from the two files and its five encoded pairs.
\<close>

definition example_fs :: filesystem where
  "example_fs =
     (\<lambda>path.
        if path = ''src.txt''
        then Inr (''i am fine'' @ [CHR 0x0A] @ ''fine'' @ [CHR 0x0A] @ ''i am'' @ [CHR 0x0A]
                    @ ''am i fine'' @ [CHR 0x0A] @ ''i'' @ [CHR 0x0A])
        else if path = ''trg.txt''
        then Inr (''fine'' @ [CHR 0x0A] @ ''i am'' @ [CHR 0x0A] @ ''am'' @ [CHR 0x0A]
                    @ ''i'' @ [CHR 0x0A] @ ''fine i am'' @ [CHR 0x0A])
        else Inl FileNotFoundError)"

definition other_vocab :: "string list" where
  "other_vocab = [''<s>'', ''</s>'', ''<pad>'', ''i'', ''am'', ''fine'']"

definition example_dataset :: "string list \<Rightarrow> nat \<Rightarrow> ParallelDataset" where
  "example_dataset v p =
     \<lparr>src_seqs = [''i am fine'', ''fine'', ''i am'', ''am i fine'', ''i''],
      trg_seqs = [''fine'', ''i am'', ''am'', ''i'', ''fine i am''],
      num_total_seqs = 5, src_word2id = v, trg_word2id = v, pad_index = p\<rparr>"

definition example_items :: "(int list \<times> int list) list" where
  "example_items =
     [([1, 3, 4, 5, 2], [1, 5, 2]), ([1, 5, 2], [1, 3, 4, 2]), ([1, 3, 4, 2], [1, 4, 2]),
      ([1, 4, 3, 5, 2], [1, 3, 2]), ([1, 3, 2], [1, 5, 3, 4, 2])]"


section \<open>Properties\<close>

subsection \<open>Single precision\<close>

declare float32_exponent.simps [simp del]

text \<open>Integers up to \<open>2^24\<close> are stored as they are; above that, some are not.\<close>

lemma float32_nat_exact: "n \<le> 2 ^ 24 \<Longrightarrow> float32_nat n = n"
proof (cases "n < 2 ^ 24")
  case True
  then have "float32_exponent n = 0" by (simp add: float32_exponent.simps)
  then show ?thesis by (simp add: float32_nat_def)
next
  case False
  assume "n \<le> 2 ^ 24"
  with False have n: "n = 2 ^ 24" by simp
  have "float32_exponent (2 ^ 24) = Suc 0"
    by (simp add: float32_exponent.simps)
  then show ?thesis unfolding n by (simp add: float32_nat_def)
qed

lemma float32_exact: "0 \<le> i \<Longrightarrow> i \<le> 2 ^ 24 \<Longrightarrow> float32 i = i"
  using float32_nat_exact[of "nat i"] by (simp add: float32_def nat_le_iff)



subsection \<open>Vocabulary lookup\<close>

lemma index_mem:
  "x \<in> set xs \<Longrightarrow> \<exists>n. index xs x = Inr n \<and> n < length xs \<and> xs ! n = x"
  by (induction xs) (auto split: sum.splits)

lemma index_not_mem: "x \<notin> set xs \<Longrightarrow> index xs x = Inl ValueError"
  by (induction xs) (auto split: sum.splits)

lemma index_Inl: "index xs x = Inl e \<Longrightarrow> e = ValueError \<and> x \<notin> set xs"
  by (induction xs arbitrary: e) (auto split: sum.splits if_splits)


subsection \<open>Padding\<close>

lemma merge_rows_closed:
  "length pre = length acc \<Longrightarrow>
   merge_rows (acc @ replicate (length seqs) row) (length acc) seqs (pre @ map length seqs)
     = acc @ map (\<lambda>seq. seq @ drop (length seq) row) seqs"
proof (induction seqs arbitrary: acc pre)
  case Nil then show ?case by simp
next
  case (Cons seq rest)
  have l: "(pre @ map length (seq # rest)) ! length acc = length seq"
    using Cons.prems by (simp add: nth_append)
  have u: "(acc @ replicate (length (seq # rest)) row)[length acc := seq @ drop (length seq) row]
            = (acc @ [seq @ drop (length seq) row]) @ replicate (length rest) row"
    by (simp add: list_update_append)
  have r: "(acc @ replicate (length (seq # rest)) row) ! length acc = row"
    by (simp add: nth_append)
  have "merge_rows (acc @ replicate (length (seq # rest)) row) (length acc) (seq # rest)
          (pre @ map length (seq # rest))
        = merge_rows ((acc @ [seq @ drop (length seq) row]) @ replicate (length rest) row)
            (length (acc @ [seq @ drop (length seq) row])) rest
            ((pre @ [length seq]) @ map length rest)"
    using l u r by (simp add: Let_def del: replicate.simps)
  also have "\<dots> = (acc @ [seq @ drop (length seq) row]) @ map (\<lambda>seq. seq @ drop (length seq) row) rest"
    by (rule Cons.IH) (simp add: Cons.prems)
  finally show ?case by simp
qed

lemma merge_closed:
  "sequences \<noteq> [] \<Longrightarrow>
   merge g sequences =
     Inr (map (\<lambda>seq. seq @ replicate (Max (set (map length sequences)) - length seq) (PAD_WORD g))
            sequences,
          map length sequences)"
proof -
  assume ne: "sequences \<noteq> []"
  then obtain s ss where s: "sequences = s # ss" by (cases sequences) auto
  have m: "py_max (map length sequences) = Inr (Max (set (map length sequences)))"
    unfolding s using Max.set_eq_fold[of "length s" "map length ss"] by simp
  have "merge_rows ([] @ replicate (length sequences) (replicate (Max (set (map length sequences))) (PAD_WORD g)))
          (length ([]::int list list)) sequences ([] @ map length sequences)
        = [] @ map (\<lambda>seq. seq @ drop (length seq) (replicate (Max (set (map length sequences))) (PAD_WORD g))) sequences"
    by (rule merge_rows_closed) simp
  then show ?thesis
    using m by (simp add: merge_def Let_def)
qed

lemma merge_is_padding:
  assumes "sequences \<noteq> []"
  shows "\<exists>grid lengths. merge g sequences = Inr (grid, lengths) \<and>
           is_padding_of (PAD_WORD g) sequences grid lengths"
proof -
  let ?m = "Max (set (map length sequences))"
  have le: "length (sequences ! i) \<le> ?m" if "i < length sequences" for i
    using that by (intro Max_ge) auto
  have "is_padding_of (PAD_WORD g) sequences
          (map (\<lambda>seq. seq @ replicate (?m - length seq) (PAD_WORD g)) sequences)
          (map length sequences)"
    unfolding is_padding_of_def using le by (auto simp: nth_append)
  with merge_closed[OF assms] show ?thesis by blast
qed

subsection \<open>The sort of line 66\<close>

lemma list_sort_mset: "mset (list_sort k r xs) = mset xs"
  by (simp add: list_sort_def)

lemma list_sort_length: "length (list_sort k r xs) = length xs"
  using list_sort_mset[of k r xs] by (metis size_mset)

lemma list_sort_set: "set (list_sort k r xs) = set xs"
  using list_sort_mset[of k r xs] by (metis set_mset_mset)

lemma list_sort_Nil_iff: "list_sort k r xs = [] \<longleftrightarrow> xs = []"
  using list_sort_length[of k r xs] by (metis length_0_conv)

lemma list_sort_descending:
  "sorted_wrt (\<lambda>a b. k b \<le> k a) (list_sort k True xs)"
proof -
  have "sorted (map k (sort_key k (rev xs)))" by (rule sorted_sort_key)
  then have "sorted_wrt (\<lambda>a b. k a \<le> k b) (sort_key k (rev xs))"
    by (simp add: sorted_wrt_map)
  then show ?thesis
    by (simp add: list_sort_def sorted_wrt_rev)
qed

lemma list_sort_stable:
  "filter (\<lambda>y. k y = c) (list_sort k True xs) = filter (\<lambda>y. k y = c) xs"
proof -
  have "filter (\<lambda>y. k y = c) (rev (sort_key k (rev xs)))
          = rev (filter (\<lambda>y. k y = c) (sort_key k (rev xs)))"
    by (simp add: rev_filter)
  also have "\<dots> = rev (filter (\<lambda>y. k y = c) (rev xs))"
    by (simp only: sort_key_stable)
  also have "\<dots> = filter (\<lambda>y. k y = c) xs"
    by (simp add: rev_filter)
  finally show ?thesis by (simp add: list_sort_def)
qed

subsection \<open>Batch assembly\<close>

lemma collate_empty: "parallel_collate_fn g [] = (g, [], Inl ValueError)"
  by (simp add: parallel_collate_fn_def list_sort_def)

lemma collate_result:
  assumes "data \<noteq> []"
  shows "\<exists>b. parallel_collate_fn g data = (g, list_sort (\<lambda>x. length (fst x)) True data, Inr b) \<and>
             src_lengths b = map (length \<circ> fst) (list_sort (\<lambda>x. length (fst x)) True data) \<and>
             trg_lengths b = map (length \<circ> snd) (list_sort (\<lambda>x. length (fst x)) True data) \<and>
             is_padding_of (PAD_WORD g) (map fst (list_sort (\<lambda>x. length (fst x)) True data))
               (src_padded b) (src_lengths b) \<and>
             is_padding_of (PAD_WORD g) (map snd (list_sort (\<lambda>x. length (fst x)) True data))
               (trg_padded b) (trg_lengths b)"
proof -
  let ?d = "list_sort (\<lambda>x. length (fst x)) True data"
  have ne: "?d \<noteq> []" using assms by (simp add: list_sort_Nil_iff)
  then have n1: "map fst ?d \<noteq> []" and n2: "map snd ?d \<noteq> []" by simp_all
  from merge_is_padding[OF n1, of g] obtain sg sl where
    s: "merge g (map fst ?d) = Inr (sg, sl)" "is_padding_of (PAD_WORD g) (map fst ?d) sg sl"
    by blast
  from merge_is_padding[OF n2, of g] obtain tg tl where
    t: "merge g (map snd ?d) = Inr (tg, tl)" "is_padding_of (PAD_WORD g) (map snd ?d) tg tl"
    by blast
  have sl: "sl = map (length \<circ> fst) ?d"
    using s(1) merge_closed[OF n1, of g] by (simp add: comp_def)
  have tl: "tl = map (length \<circ> snd) ?d"
    using t(1) merge_closed[OF n2, of g] by (simp add: comp_def)
  have "parallel_collate_fn g data =
          (g, ?d, Inr \<lparr>src_padded = sg, src_lengths = sl, trg_padded = tg, trg_lengths = tl\<rparr>)"
    using ne s(1) t(1) by (simp add: parallel_collate_fn_def Let_def)
  then show ?thesis using s(2) t(2) sl tl by auto
qed

lemma example_collate:
  "parallel_collate_fn module_init example_pairs =
     (module_init,
      [([1, 3, 4, 5, 2], [1, 5, 2]), ([1, 3, 2], [1, 2]), ([1, 4, 2], [1, 3, 3, 3, 2])],
      Inr \<lparr>src_padded = [[1, 3, 4, 5, 2], [1, 3, 2, - 1, - 1], [1, 4, 2, - 1, - 1]],
           src_lengths = [5, 3, 3],
           trg_padded = [[1, 5, 2, - 1, - 1], [1, 2, - 1, - 1, - 1], [1, 3, 3, 3, 2]],
           trg_lengths = [3, 2, 5]\<rparr>)"
  by (simp add: parallel_collate_fn_def example_pairs_def list_sort_def merge_def module_init_def
      Let_def)

text \<open>
  Claim C1. A non-empty list of pairs always yields a batch. Its source and target
  grids have one row per input pair. Every row of the source grid has as many columns
  as the longest source sequence of this batch has entries, every row of the target
  grid as many as the longest target sequence; the two widths are computed separately.
  In row \<open>i\<close> the positions below \<open>src_lengths[i]\<close> hold the ids of the \<open>i\<close>-th
  sequence in sorted order, the positions from \<open>src_lengths[i]\<close> on hold the pad
  value, and \<open>src_lengths[i]\<close> is at most the column count; likewise for the target.
\<close>

theorem collate_padded:
  assumes "data \<noteq> []"
  shows "\<exists>data' b. parallel_collate_fn g data = (g, data', Inr b) \<and>
           mset data' = mset data \<and>
           length (src_padded b) = length data \<and> length (trg_padded b) = length data \<and>
           is_padding_of (PAD_WORD g) (map fst data') (src_padded b) (src_lengths b) \<and>
           is_padding_of (PAD_WORD g) (map snd data') (trg_padded b) (trg_lengths b) \<and>
           (\<forall>row \<in> set (src_padded b). length row = Max (set (map (length \<circ> fst) data))) \<and>
           (\<forall>row \<in> set (trg_padded b). length row = Max (set (map (length \<circ> snd) data)))"
proof -
  let ?d = "list_sort (\<lambda>x. length (fst x)) True data"
  from collate_result[OF assms, of g] obtain b where
    b: "parallel_collate_fn g data = (g, ?d, Inr b)"
       "is_padding_of (PAD_WORD g) (map fst ?d) (src_padded b) (src_lengths b)"
       "is_padding_of (PAD_WORD g) (map snd ?d) (trg_padded b) (trg_lengths b)"
    by blast
  have len: "length ?d = length data" by (rule list_sort_length)
  have ls: "length (src_padded b) = length data" "length (trg_padded b) = length data"
    using b(2,3) len by (simp_all add: is_padding_of_def)
  have ms: "set (map (length \<circ> fst) ?d) = set (map (length \<circ> fst) data)"
           "set (map (length \<circ> snd) ?d) = set (map (length \<circ> snd) data)"
    by (simp_all add: list_sort_set)
  have cs: "length row = Max (set (map (length \<circ> fst) data))" if "row \<in> set (src_padded b)" for row
  proof -
    from that obtain i where "i < length (src_padded b)" "row = src_padded b ! i"
      by (auto simp: in_set_conv_nth)
    with b(2) ls(1) len ms(1) show ?thesis by (simp add: is_padding_of_def)
  qed
  have ct: "length row = Max (set (map (length \<circ> snd) data))" if "row \<in> set (trg_padded b)" for row
  proof -
    from that obtain i where "i < length (trg_padded b)" "row = trg_padded b ! i"
      by (auto simp: in_set_conv_nth)
    with b(3) ls(2) len ms(2) show ?thesis by (simp add: is_padding_of_def)
  qed
  show ?thesis
    using b ls cs ct list_sort_mset[of "\<lambda>x. length (fst x)" True data] by blast
qed

theorem collate_padded_witness:
  "example_pairs \<noteq> [] \<and>
   (\<exists>data'. parallel_collate_fn module_init example_pairs =
       (module_init, data',
        Inr \<lparr>src_padded = [[1, 3, 4, 5, 2], [1, 3, 2, - 1, - 1], [1, 4, 2, - 1, - 1]],
             src_lengths = [5, 3, 3],
             trg_padded = [[1, 5, 2, - 1, - 1], [1, 2, - 1, - 1, - 1], [1, 3, 3, 3, 2]],
             trg_lengths = [3, 2, 5]\<rparr>) \<and>
       is_padding_of (- 1) (map fst data')
         [[1, 3, 4, 5, 2], [1, 3, 2, - 1, - 1], [1, 4, 2, - 1, - 1]] [5, 3, 3] \<and>
       is_padding_of (- 1) (map snd data')
         [[1, 5, 2, - 1, - 1], [1, 2, - 1, - 1, - 1], [1, 3, 3, 3, 2]] [3, 2, 5])"
proof -
  have ne: "example_pairs \<noteq> []" by (simp add: example_pairs_def)
  from collate_padded[OF ne, of module_init] example_collate ne show ?thesis
    by (auto simp: module_init_def)
qed

text \<open>
  Claim C2. For every non-empty list of pairs the call returns a batch whose
  \<open>src_lengths\<close> are the true source lengths of its rows and are in descending
  order: for all row indices \<open>i < j\<close>, \<open>src_lengths[i] \<ge> src_lengths[j]\<close>.
\<close>

theorem collate_sorted_descending:
  assumes "data \<noteq> []"
  shows "\<exists>data' b. parallel_collate_fn g data = (g, data', Inr b) \<and>
           length (src_lengths b) = length data \<and>
           src_lengths b = map (length \<circ> fst) data' \<and>
           (\<forall>i j. i < j \<and> j < length (src_lengths b)
                 \<longrightarrow> src_lengths b ! j \<le> src_lengths b ! i)"
proof -
  let ?k = "\<lambda>x::int list \<times> int list. length (fst x)"
  let ?d = "list_sort ?k True data"
  from collate_result[OF assms, of g] obtain b where
    b: "parallel_collate_fn g data = (g, ?d, Inr b)" "src_lengths b = map (length \<circ> fst) ?d"
    by blast
  have "sorted_wrt (\<lambda>a b. ?k b \<le> ?k a) ?d" by (rule list_sort_descending)
  then have "\<forall>i j. i < j \<and> j < length ?d \<longrightarrow> ?k (?d ! j) \<le> ?k (?d ! i)"
    by (simp add: sorted_wrt_iff_nth_less)
  then have "\<forall>i j. i < j \<and> j < length (src_lengths b) \<longrightarrow> src_lengths b ! j \<le> src_lengths b ! i"
    using b(2) by simp
  moreover have "length (src_lengths b) = length data"
    using b(2) by (simp add: list_sort_length)
  ultimately show ?thesis using b by blast
qed

theorem collate_sorted_descending_witness:
  "example_pairs \<noteq> [] \<and>
   (\<exists>data' b. parallel_collate_fn module_init example_pairs = (module_init, data', Inr b) \<and>
      src_lengths b = [5, 3, 3] \<and>
      (\<forall>i j. i < j \<and> j < length (src_lengths b) \<longrightarrow> src_lengths b ! j \<le> src_lengths b ! i))"
proof -
  have ne: "example_pairs \<noteq> []" by (simp add: example_pairs_def)
  from collate_sorted_descending[OF ne, of module_init] example_collate ne show ?thesis
    by auto
qed

text \<open>
  Claim C4. The target rows come in the row order of the source rows, the order that
  the descending sort on the source length establishes; the targets are not sorted on
  their own. For every row \<open>i\<close>, the unpadded source row and the unpadded target row
  are the two components of one pair of the input, the \<open>i\<close>-th pair of the sorted list.
\<close>

theorem collate_rows_stay_paired:
  assumes "data \<noteq> []"
  shows "\<exists>data' b. parallel_collate_fn g data = (g, data', Inr b) \<and>
           data' = list_sort (\<lambda>x. length (fst x)) True data \<and>
           length (src_padded b) = length data \<and> length (trg_padded b) = length data \<and>
           (\<forall>i < length data.
              take (src_lengths b ! i) (src_padded b ! i) = fst (data' ! i) \<and>
              take (trg_lengths b ! i) (trg_padded b ! i) = snd (data' ! i) \<and>
              data' ! i \<in> set data)"
proof -
  let ?d = "list_sort (\<lambda>x. length (fst x)) True data"
  from collate_result[OF assms, of g] obtain b where
    b: "parallel_collate_fn g data = (g, ?d, Inr b)"
       "is_padding_of (PAD_WORD g) (map fst ?d) (src_padded b) (src_lengths b)"
       "is_padding_of (PAD_WORD g) (map snd ?d) (trg_padded b) (trg_lengths b)"
    by blast
  have len: "length ?d = length data" by (rule list_sort_length)
  have ls: "length (src_padded b) = length data" "length (trg_padded b) = length data"
    using b(2,3) len by (simp_all add: is_padding_of_def)
  have row: "take (src_lengths b ! i) (src_padded b ! i) = fst (?d ! i) \<and>
             take (trg_lengths b ! i) (trg_padded b ! i) = snd (?d ! i) \<and> ?d ! i \<in> set data"
    if i: "i < length data" for i
  proof -
    have "take (src_lengths b ! i) (src_padded b ! i) = fst (?d ! i)"
      using b(2) i len by (intro nth_equalityI) (auto simp: is_padding_of_def)
    moreover have "take (trg_lengths b ! i) (trg_padded b ! i) = snd (?d ! i)"
      using b(3) i len by (intro nth_equalityI) (auto simp: is_padding_of_def)
    moreover have "?d ! i \<in> set ?d" using i len by simp
    then have "?d ! i \<in> set data" by (simp add: list_sort_set)
    ultimately show ?thesis by blast
  qed
  show ?thesis using b(1) ls row by blast
qed

theorem collate_rows_stay_paired_witness:
  "example_pairs \<noteq> [] \<and>
   (\<exists>data' b. parallel_collate_fn module_init example_pairs = (module_init, data', Inr b) \<and>
      trg_lengths b = [3, 2, 5] \<and>
      (\<forall>i < length example_pairs.
         take (src_lengths b ! i) (src_padded b ! i) = fst (data' ! i) \<and>
         take (trg_lengths b ! i) (trg_padded b ! i) = snd (data' ! i) \<and>
         data' ! i \<in> set example_pairs))"
proof -
  have ne: "example_pairs \<noteq> []" by (simp add: example_pairs_def)
  from collate_rows_stay_paired[OF ne, of module_init] example_collate ne show ?thesis
    by auto
qed

text \<open>
  Claim C9. The call sorts the caller's list in place: after any call, also one that
  raises, the list is a permutation of what it was, in descending order of the source
  length, and it can differ from the list passed in. The module state after the call
  is the module state before it.
\<close>

theorem collate_sorts_argument_in_place:
  "(\<exists>data' r. parallel_collate_fn g data = (g, data', r) \<and>
        mset data' = mset data \<and>
        sorted_wrt (\<lambda>a b. length (fst b) \<le> length (fst a)) data') \<and>
   fst (snd (parallel_collate_fn module_init [([1], [1]), ([1, 2], [1])]))
     = [([1, 2], [1]), ([1], [1])]"
proof -
  let ?k = "\<lambda>x::int list \<times> int list. length (fst x)"
  have "\<exists>r. parallel_collate_fn g data = (g, list_sort ?k True data, r)"
  proof (cases "data = []")
    case True then show ?thesis by (simp add: collate_empty list_sort_def)
  next
    case False from collate_result[OF this, of g] show ?thesis by blast
  qed
  moreover have "fst (snd (parallel_collate_fn module_init [([1], [1]), ([1, 2], [1])]))
     = [([1, 2], [1]), ([1], [1])]"
    by (simp add: parallel_collate_fn_def list_sort_def merge_def Let_def)
  ultimately show ?thesis
    using list_sort_mset[of ?k True data] list_sort_descending[of ?k data] by blast
qed

text \<open>
  Claim C10. The descending sort is stable: for every length \<open>n\<close>, the pairs whose
  source sequence has length \<open>n\<close> stand in the sorted list in the order in which they
  stand in the input, and the rows of the batch are the paddings of the sorted list.
\<close>

theorem collate_sort_is_stable:
  "\<exists>data' r. parallel_collate_fn g data = (g, data', r) \<and>
      (\<forall>n. filter (\<lambda>p. length (fst p) = n) data' = filter (\<lambda>p. length (fst p) = n) data) \<and>
      (data \<noteq> [] \<longrightarrow>
         (\<exists>b. r = Inr b \<and>
              is_padding_of (PAD_WORD g) (map fst data') (src_padded b) (src_lengths b) \<and>
              is_padding_of (PAD_WORD g) (map snd data') (trg_padded b) (trg_lengths b)))"
proof -
  let ?k = "\<lambda>x::int list \<times> int list. length (fst x)"
  have st: "\<forall>n. filter (\<lambda>p. ?k p = n) (list_sort ?k True data) = filter (\<lambda>p. ?k p = n) data"
    by (simp add: list_sort_stable)
  show ?thesis
  proof (cases "data = []")
    case True then show ?thesis by (simp add: collate_empty)
  next
    case False
    from collate_result[OF this, of g] st False show ?thesis by blast
  qed
qed

theorem collate_sort_is_stable_witness:
  "\<exists>data' b. parallel_collate_fn module_init example_pairs = (module_init, data', Inr b) \<and>
      filter (\<lambda>p. length (fst p) = 3) data' = [([1, 3, 2], [1, 2]), ([1, 4, 2], [1, 3, 3, 3, 2])] \<and>
      is_padding_of (- 1) (map fst data') (src_padded b) (src_lengths b) \<and>
      is_padding_of (- 1) (map snd data') (trg_padded b) (trg_lengths b)"
proof -
  have ne: "example_pairs \<noteq> []" by (simp add: example_pairs_def)
  have f: "filter (\<lambda>p. length (fst p) = 3) example_pairs
             = [([1, 3, 2], [1, 2]), ([1, 4, 2], [1, 3, 3, 3, 2])]"
    by (simp add: example_pairs_def)
  from collate_sort_is_stable[of module_init example_pairs] example_collate ne f show ?thesis
    by (auto simp: module_init_def)
qed

subsection \<open>Encoding a line\<close>

text \<open>The tokens of a line are not empty and hold no whitespace.\<close>

lemma split_from_tokens:
  "\<forall>c \<in> set cur. \<not> isspace c \<Longrightarrow> t \<in> set (split_from cur s) \<Longrightarrow>
   t \<noteq> [] \<and> (\<forall>c \<in> set t. \<not> isspace c)"
proof (induction s arbitrary: cur)
  case Nil
  then show ?case by (simp split: if_splits)
next
  case (Cons a s)
  show ?case
  proof (cases "isspace a")
    case True
    with Cons.prems(2) have "t = cur \<and> cur \<noteq> [] \<or> t \<in> set (split_from [] s)"
      by (simp split: if_splits)
    then show ?thesis using Cons.IH[of "[]"] Cons.prems(1) by auto
  next
    case False
    with Cons.prems(2) have "t \<in> set (split_from (cur @ [a]) s)" by simp
    moreover have "\<forall>c \<in> set (cur @ [a]). \<not> isspace c" using False Cons.prems(1) by simp
    ultimately show ?thesis using Cons.IH[of "cur @ [a]"] by blast
  qed
qed

lemma str_split_tokens:
  "t \<in> set (str_split s) \<Longrightarrow> t \<noteq> [] \<and> (\<forall>c \<in> set t. \<not> isspace c)"
  unfolding str_split_def using split_from_tokens[of "[]" t s] by simp


lemma index_all_Inl: "index_all v tokens = Inl e \<Longrightarrow> e = ValueError"
  by (induction tokens arbitrary: e) (auto split: sum.splits dest: index_Inl)

lemma index_all_absent:
  "t \<in> set tokens \<Longrightarrow> t \<notin> set v \<Longrightarrow> index_all v tokens = Inl ValueError"
proof (induction tokens)
  case Nil then show ?case by simp
next
  case (Cons a ts)
  show ?case
  proof (cases "index v a")
    case (Inl e) then show ?thesis using index_Inl[OF Inl] by simp
  next
    case (Inr n)
    then have "a \<noteq> t" using Cons.prems(2) index_not_mem[of t v] by auto
    with Cons have "index_all v ts = Inl ValueError" by simp
    with Inr show ?thesis by simp
  qed
qed

lemma preprocess_Inl: "preprocess line v = Inl e \<Longrightarrow> e = ValueError"
  by (auto simp: preprocess_def Let_def split: sum.splits dest: index_Inl index_all_Inl)

lemma preprocess_absent:
  assumes "t \<in> set (str_split line)" "t \<notin> set v"
  shows "preprocess line v = Inl ValueError"
proof -
  have "\<exists>e. preprocess line v = Inl e"
    using index_all_absent[OF assms]
    by (auto simp: preprocess_def Let_def split: sum.splits)
  then show ?thesis using preprocess_Inl by blast
qed










subsection \<open>Tokens outside the vocabulary\<close>

lemma getitem_absent:
  assumes "0 \<le> i" "i < int (length (src_seqs ds))" "i < int (length (trg_seqs ds))"
    and "(\<exists>t \<in> set (str_split (src_seqs ds ! nat i)). t \<notin> set (src_word2id ds)) \<or>
         (\<exists>t \<in> set (str_split (trg_seqs ds ! nat i)). t \<notin> set (trg_word2id ds))"
  shows "getitem ds i = Inl ValueError"
proof -
  have g: "getitem_list (src_seqs ds) i = Inr (src_seqs ds ! nat i)"
          "getitem_list (trg_seqs ds) i = Inr (trg_seqs ds ! nat i)"
    using assms(1-3) by (simp_all add: getitem_list_def)
  show ?thesis
  proof (cases "preprocess (src_seqs ds ! nat i) (src_word2id ds)")
    case (Inl e)
    then show ?thesis using g preprocess_Inl[OF Inl] by (simp add: getitem_def)
  next
    case (Inr s)
    then have "\<not> (\<exists>t \<in> set (str_split (src_seqs ds ! nat i)). t \<notin> set (src_word2id ds))"
      using preprocess_absent by fastforce
    with assms(4) obtain t where "t \<in> set (str_split (trg_seqs ds ! nat i))"
      "t \<notin> set (trg_word2id ds)" by blast
    from preprocess_absent[OF this] Inr g show ?thesis by (simp add: getitem_def)
  qed
qed

lemma fetch_items_first_failure:
  "\<forall>j \<in> set pre. \<exists>p. getitem ds j = Inr p \<Longrightarrow> getitem ds i = Inl e \<Longrightarrow>
   fetch_items ds (pre @ i # post) = Inl e"
  by (induction pre) (auto split: sum.splits)

lemma fetch_first_failure:
  assumes "\<forall>j \<in> set pre. \<exists>p. getitem ds j = Inr p" "getitem ds i = Inl e"
  shows "fetch g ds (pre @ i # post) = (g, Inl e)"
  using fetch_items_first_failure[OF assms] by (simp add: fetch_def)

text \<open>
  Claim C5, as amended. A line with a token that the vocabulary does not list makes
  \<^verbatim>\<open>preprocess\<close> raise the \<^verbatim>\<open>ValueError\<close> of \<^verbatim>\<open>list.index\<close>, which is not a
  \<^verbatim>\<open>LookupError\<close>; nothing stands in for the unknown token. The exception leaves
  \<^verbatim>\<open>__getitem__\<close>, and the loader that fetches a group of indices holding such an item
  produces no batch for the group and ends the iteration with that exception.
\<close>

theorem oov_token_raises_ValueError:
  "(t \<in> set (str_split line) \<and> t \<notin> set word2id \<longrightarrow> preprocess line word2id = Inl ValueError) \<and>
   \<not> is_LookupError ValueError \<and>
   (0 \<le> i \<and> i < int (length (src_seqs ds)) \<and> i < int (length (trg_seqs ds)) \<and>
      ((\<exists>t \<in> set (str_split (src_seqs ds ! nat i)). t \<notin> set (src_word2id ds)) \<or>
       (\<exists>t \<in> set (str_split (trg_seqs ds ! nat i)). t \<notin> set (trg_word2id ds)))
      \<longrightarrow> getitem ds i = Inl ValueError) \<and>
   ((\<forall>j \<in> set pre. \<exists>p. getitem ds j = Inr p) \<and> getitem ds k = Inl e
      \<longrightarrow> fetch g ds (pre @ k # post) = (g, Inl e) \<and>
          run_batches g ds ((pre @ k # post) # rest) = (g, [], Some e))"
proof -
  have a: "preprocess line word2id = Inl ValueError"
    if "t \<in> set (str_split line)" "t \<notin> set word2id"
    using that by (rule preprocess_absent)
  have b: "getitem ds i = Inl ValueError"
    if "0 \<le> i" "i < int (length (src_seqs ds))" "i < int (length (trg_seqs ds))"
       "(\<exists>t \<in> set (str_split (src_seqs ds ! nat i)). t \<notin> set (src_word2id ds)) \<or>
        (\<exists>t \<in> set (str_split (trg_seqs ds ! nat i)). t \<notin> set (trg_word2id ds))"
    using that by (rule getitem_absent)
  have c: "fetch g ds (pre @ k # post) = (g, Inl e) \<and>
           run_batches g ds ((pre @ k # post) # rest) = (g, [], Some e)"
    if "\<forall>j \<in> set pre. \<exists>p. getitem ds j = Inr p" "getitem ds k = Inl e"
    using fetch_first_failure[OF that, of g post] by simp
  have d: "\<not> is_LookupError ValueError" by simp
  from a b c d show ?thesis by blast
qed

lemma oov_item0: "getitem oov_dataset 0 = Inr ([1, 3, 4, 5, 2], [1, 5, 2])"
  by (simp add: getitem_def getitem_list_def oov_dataset_def preprocess_def str_split_def
      isspace_def scenario_vocab_def Tensor_def float32_exact)

theorem oov_token_raises_ValueError_witness:
  "''zebra'' \<in> set (str_split ''i am zebra'') \<and> ''zebra'' \<notin> set scenario_vocab \<and>
   preprocess ''i am zebra'' scenario_vocab = Inl ValueError \<and>
   getitem oov_dataset 0 = Inr ([1, 3, 4, 5, 2], [1, 5, 2]) \<and>
   getitem oov_dataset 1 = Inl ValueError \<and>
   fetch module_init oov_dataset [0, 1] = (module_init, Inl ValueError) \<and>
   run_batches module_init oov_dataset [[0, 1]] = (module_init, [], Some ValueError)"
proof -
  have t: "''zebra'' \<in> set (str_split ''i am zebra'')" "''zebra'' \<notin> set scenario_vocab"
    by (simp_all add: str_split_def isspace_def scenario_vocab_def)
  have r: "(0::int) \<le> 1" "1 < int (length (src_seqs oov_dataset))"
          "1 < int (length (trg_seqs oov_dataset))"
          "\<exists>t \<in> set (str_split (src_seqs oov_dataset ! nat 1)). t \<notin> set (src_word2id oov_dataset)"
    using t by (auto simp: oov_dataset_def)
  have p: "\<forall>j \<in> set [0]. \<exists>p. getitem oov_dataset j = Inr p" using oov_item0 by simp
  note inst = oov_token_raises_ValueError[where t = "''zebra''" and line = "''i am zebra''"
      and ?word2id = scenario_vocab and i = 1 and ds = oov_dataset and pre = "[0]" and k = 1
      and e = ValueError and g = module_init and post = "[]" and rest = "[]"]
  from inst t r p oov_item0 show ?thesis by auto
qed

text \<open>
  Claim C5 as stated fails: the exception raised for the unknown word \<^verbatim>\<open>zebra\<close> is a
  \<^verbatim>\<open>ValueError\<close>, and \<^verbatim>\<open>ValueError\<close> is not a \<^verbatim>\<open>LookupError\<close>.
\<close>

theorem oov_token_not_LookupError_counterexample:
  "preprocess ''i zebra'' scenario_vocab = Inl ValueError \<and> \<not> is_LookupError ValueError"
  by (simp add: preprocess_def str_split_def isspace_def scenario_vocab_def)

subsection \<open>Building the data set\<close>

lemma init_ok:
  assumes "fs src_path = Inr s" "fs trg_path = Inr t" "''<pad>'' \<in> set sv"
  shows "\<exists>p. index sv ''<pad>'' = Inr p \<and>
           ParallelDataset_init fs src_path trg_path sv tv =
             Inr \<lparr>src_seqs = splitlines s, trg_seqs = splitlines t,
                  num_total_seqs = length (splitlines s),
                  src_word2id = sv, trg_word2id = tv, pad_index = p\<rparr>"
proof -
  from index_mem[OF assms(3)] obtain p where "index sv ''<pad>'' = Inr p" by blast
  then show ?thesis using assms(1,2) by (simp add: ParallelDataset_init_def read_file_def)
qed

lemma init_Inr:
  assumes "ParallelDataset_init fs src_path trg_path sv tv = Inr ds"
  shows "\<exists>s t p. fs src_path = Inr s \<and> fs trg_path = Inr t \<and> index sv ''<pad>'' = Inr p \<and>
           ds = \<lparr>src_seqs = splitlines s, trg_seqs = splitlines t,
                  num_total_seqs = length (splitlines s),
                  src_word2id = sv, trg_word2id = tv, pad_index = p\<rparr>"
  using assms
  by (auto simp: ParallelDataset_init_def read_file_def split: sum.splits)

text \<open>
  Claim C6, as amended. \<^verbatim>\<open>__init__\<close> reads both files into memory as lists of lines
  and does not compare the line counts: when both files can be read and the source
  vocabulary lists \<^verbatim>\<open><pad>\<close>, it succeeds whatever the counts are, and the length of
  the data set is the number of source lines. With fewer target lines than source
  lines the mismatch shows only later, as the \<^verbatim>\<open>IndexError\<close> of \<^verbatim>\<open>__getitem__\<close> at an
  index beyond the target lines.
\<close>

theorem init_does_not_compare_line_counts:
  "(fs src_path = Inr s \<and> fs trg_path = Inr t \<and> ''<pad>'' \<in> set sv \<longrightarrow>
      (\<exists>p. index sv ''<pad>'' = Inr p \<and>
           ParallelDataset_init fs src_path trg_path sv tv =
             Inr \<lparr>src_seqs = splitlines s, trg_seqs = splitlines t,
                  num_total_seqs = length (splitlines s),
                  src_word2id = sv, trg_word2id = tv, pad_index = p\<rparr>)) \<and>
   (ParallelDataset_init fs src_path trg_path sv tv = Inr ds \<and>
      length (trg_seqs ds) \<le> i \<and> i < len_dataset ds \<longrightarrow> getitem ds (int i) = Inl IndexError)"
proof -
  have b: "getitem ds (int i) = Inl IndexError"
    if h: "ParallelDataset_init fs src_path trg_path sv tv = Inr ds"
       "length (trg_seqs ds) \<le> i" "i < len_dataset ds"
  proof -
    from init_Inr[OF h(1)] have n: "num_total_seqs ds = length (src_seqs ds)" by auto
    with h(2,3) show ?thesis
      by (simp add: getitem_def getitem_list_def len_dataset_def)
  qed
  from init_ok[of fs src_path s trg_path t sv tv] b show ?thesis by blast
qed

lemma mismatched_init:
  "ParallelDataset_init mismatched_fs ''src.txt'' ''trg.txt'' scenario_vocab scenario_vocab =
     Inr \<lparr>src_seqs = [''i am'', ''fine''], trg_seqs = [''i''], num_total_seqs = 2,
          src_word2id = scenario_vocab, trg_word2id = scenario_vocab, pad_index = 0\<rparr>"
  by (simp add: ParallelDataset_init_def read_file_def mismatched_fs_def splitlines_def
      is_linebreak_def scenario_vocab_def)

text \<open>
  Claim C6 as stated fails: a source file of two lines and a target file of one line
  give a data set, not an error.
\<close>

theorem init_line_count_counterexample:
  "length (splitlines (''i am'' @ [CHR 0x0A] @ ''fine'' @ [CHR 0x0A])) = 2 \<and>
   length (splitlines (''i'' @ [CHR 0x0A])) = 1 \<and>
   mismatched_fs ''src.txt'' = Inr (''i am'' @ [CHR 0x0A] @ ''fine'' @ [CHR 0x0A]) \<and>
   mismatched_fs ''trg.txt'' = Inr (''i'' @ [CHR 0x0A]) \<and>
   ParallelDataset_init mismatched_fs ''src.txt'' ''trg.txt'' scenario_vocab scenario_vocab =
     Inr \<lparr>src_seqs = [''i am'', ''fine''], trg_seqs = [''i''], num_total_seqs = 2,
          src_word2id = scenario_vocab, trg_word2id = scenario_vocab, pad_index = 0\<rparr>"
  using mismatched_init
  by (simp add: mismatched_fs_def splitlines_def is_linebreak_def)

theorem init_does_not_compare_line_counts_witness:
  "mismatched_fs ''src.txt'' = Inr (''i am'' @ [CHR 0x0A] @ ''fine'' @ [CHR 0x0A]) \<and>
   mismatched_fs ''trg.txt'' = Inr (''i'' @ [CHR 0x0A]) \<and>
   ''<pad>'' \<in> set scenario_vocab \<and>
   (\<exists>ds. ParallelDataset_init mismatched_fs ''src.txt'' ''trg.txt'' scenario_vocab scenario_vocab
           = Inr ds \<and>
      length (trg_seqs ds) \<le> 1 \<and> 1 < len_dataset ds \<and> getitem ds (int 1) = Inl IndexError)"
proof -
  let ?ds = "\<lparr>src_seqs = [''i am'', ''fine''], trg_seqs = [''i''], num_total_seqs = 2,
          src_word2id = scenario_vocab, trg_word2id = scenario_vocab, pad_index = 0\<rparr>"
  have f: "mismatched_fs ''src.txt'' = Inr (''i am'' @ [CHR 0x0A] @ ''fine'' @ [CHR 0x0A])"
          "mismatched_fs ''trg.txt'' = Inr (''i'' @ [CHR 0x0A])"
          "''<pad>'' \<in> set scenario_vocab"
    by (simp_all add: mismatched_fs_def scenario_vocab_def)
  have h: "length (trg_seqs ?ds) \<le> 1" "1 < len_dataset ?ds"
    by (simp_all add: len_dataset_def)
  note inst = init_does_not_compare_line_counts[where fs = mismatched_fs
      and src_path = "''src.txt''" and trg_path = "''trg.txt''"
      and sv = scenario_vocab and tv = scenario_vocab and i = 1 and ds = ?ds]
  from inst mismatched_init h have "getitem ?ds (int 1) = Inl IndexError" by blast
  with mismatched_init h f show ?thesis by blast
qed

subsection \<open>The pad value\<close>

lemma example_init:
  "ParallelDataset_init example_fs ''src.txt'' ''trg.txt'' scenario_vocab scenario_vocab
     = Inr (example_dataset scenario_vocab 0)"
  by (simp add: ParallelDataset_init_def read_file_def example_fs_def splitlines_def
      is_linebreak_def scenario_vocab_def example_dataset_def)

lemma example_init_other:
  "ParallelDataset_init example_fs ''src.txt'' ''trg.txt'' other_vocab other_vocab
     = Inr (example_dataset other_vocab 2)"
  by (simp add: ParallelDataset_init_def read_file_def example_fs_def splitlines_def
      is_linebreak_def other_vocab_def example_dataset_def)

lemma example_pad_index:
  "index scenario_vocab ''<pad>'' = Inr 0" "index other_vocab ''<pad>'' = Inr 2"
  by (simp_all add: scenario_vocab_def other_vocab_def)

lemma example_valid_loader:
  "get_valid_parallel_loader g example_fs ''src.txt'' ''trg.txt'' scenario_vocab scenario_vocab 2
     = (g\<lparr>PAD_WORD := 0\<rparr>, Inr \<lparr>dataset = example_dataset scenario_vocab 0, batch_size = 2\<rparr>)"
  by (simp add: get_valid_parallel_loader_def example_init example_pad_index DataLoader_new_def)

lemma example_valid_loader_other:
  "get_valid_parallel_loader g example_fs ''src.txt'' ''trg.txt'' other_vocab other_vocab 2
     = (g\<lparr>PAD_WORD := 2\<rparr>, Inr \<lparr>dataset = example_dataset other_vocab 2, batch_size = 2\<rparr>)"
  by (simp add: get_valid_parallel_loader_def example_init_other example_pad_index
      DataLoader_new_def)

lemma example_getitem:
  "i < 5 \<Longrightarrow> getitem (example_dataset scenario_vocab 0) (int i) = Inr (example_items ! i)"
proof -
  assume "i < 5"
  then have "i = 0 \<or> i = 1 \<or> i = 2 \<or> i = 3 \<or> i = 4" by arith
  then show ?thesis
    by (auto simp: getitem_def getitem_list_def example_dataset_def preprocess_def str_split_def
        isspace_def scenario_vocab_def example_items_def Tensor_def float32_exact)
qed

lemma valid_loader_state:
  assumes "get_valid_parallel_loader g fs sp tp sv tv bs = (g', r)"
  shows "(\<forall>ldr. r = Inr ldr \<longrightarrow>
            (\<exists>p ds. index sv ''<pad>'' = Inr p \<and> g' = g\<lparr>PAD_WORD := int p\<rparr> \<and>
                  ParallelDataset_init fs sp tp sv tv = Inr ds \<and> 0 < bs \<and>
                  ldr = \<lparr>dataset = ds, batch_size = nat bs\<rparr>))"
  using assms
  by (auto simp: get_valid_parallel_loader_def DataLoader_new_def Let_def
      split: sum.splits if_splits)

lemma train_loader_state:
  assumes "get_train_parallel_loader mk_s mk_l g fs sp tp sv tv bs ws rk = (g', Inr r)"
  shows "\<exists>p. index sv ''<pad>'' = Inr p \<and> g' = g\<lparr>PAD_WORD := int p\<rparr>"
  using assms
  by (auto simp: get_train_parallel_loader_def Let_def split: sum.splits)

lemma train_loader_effect:
  assumes "ParallelDataset_init fs sp tp sv tv = Inr ds"
  shows "\<exists>p. index sv ''<pad>'' = Inr p \<and>
           fst (get_train_parallel_loader mk_s mk_l g fs sp tp sv tv bs ws rk)
             = g\<lparr>PAD_WORD := int p\<rparr> \<and>
           (\<forall>s l. mk_s ds ws rk = Inr s \<and> mk_l ds bs s = Inr l \<longrightarrow>
              get_train_parallel_loader mk_s mk_l g fs sp tp sv tv bs ws rk
                = (g\<lparr>PAD_WORD := int p\<rparr>, Inr (l, s)))"
proof -
  from init_Inr[OF assms] obtain p where p: "index sv ''<pad>'' = Inr p" by blast
  then show ?thesis
    using assms by (auto simp: get_train_parallel_loader_def Let_def split: sum.splits)
qed

lemma valid_loader_effect:
  assumes "ParallelDataset_init fs sp tp sv tv = Inr ds"
  shows "\<exists>p. index sv ''<pad>'' = Inr p \<and>
           fst (get_valid_parallel_loader g fs sp tp sv tv bs) = g\<lparr>PAD_WORD := int p\<rparr> \<and>
           (0 < bs \<longrightarrow>
              get_valid_parallel_loader g fs sp tp sv tv bs
                = (g\<lparr>PAD_WORD := int p\<rparr>, Inr \<lparr>dataset = ds, batch_size = nat bs\<rparr>))"
proof -
  from init_Inr[OF assms] obtain p where p: "index sv ''<pad>'' = Inr p" by blast
  then show ?thesis
    using assms by (auto simp: get_valid_parallel_loader_def DataLoader_new_def Let_def)
qed

lemma factories_without_data_set:
  assumes "ParallelDataset_init fs sp tp sv tv = Inl e"
  shows "get_train_parallel_loader mk_s mk_l g fs sp tp sv tv bs ws rk = (g, Inl e)"
    and "get_valid_parallel_loader g fs sp tp sv tv bs = (g, Inl e)"
  using assms by (simp_all add: get_train_parallel_loader_def get_valid_parallel_loader_def)

lemma example_missing_file:
  "ParallelDataset_init example_fs ''missing.txt'' ''trg.txt'' other_vocab other_vocab
     = Inl FileNotFoundError"
  by (simp add: ParallelDataset_init_def read_file_def example_fs_def)

text \<open>
  Claim C8. The pad value is the module global \<^verbatim>\<open>PAD_WORD\<close>. Its initial value is
  \<open>-1\<close>, which is the position of \<^verbatim>\<open><pad>\<close> in no vocabulary, and batch assembly in the
  initial state fills with \<open>-1\<close>. Either loader factory, once it has built the data
  set, assigns the position of \<^verbatim>\<open><pad>\<close> in the source vocabulary of that call to the
  global, whatever the global held before, so of two calls the later one decides; a
  factory that cannot build the data set leaves the global as it is. Batch assembly
  fills with the value it finds and leaves the global as it is.
\<close>

theorem pad_word_is_module_global:
  "PAD_WORD module_init = - 1 \<and>
   (index v ''<pad>'' = Inr q \<longrightarrow> int q \<noteq> - 1) \<and>
   (data \<noteq> [] \<longrightarrow>
      (\<exists>data' b. parallel_collate_fn module_init data = (module_init, data', Inr b) \<and>
         is_padding_of (- 1) (map fst data') (src_padded b) (src_lengths b) \<and>
         is_padding_of (- 1) (map snd data') (trg_padded b) (trg_lengths b))) \<and>
   (get_valid_parallel_loader g fs sp tp sv tv bs = (g1, Inr ldr) \<and> data \<noteq> [] \<longrightarrow>
      (\<exists>p data' b. index sv ''<pad>'' = Inr p \<and> PAD_WORD g1 = int p \<and>
         parallel_collate_fn g1 data = (g1, data', Inr b) \<and>
         is_padding_of (int p) (map fst data') (src_padded b) (src_lengths b) \<and>
         is_padding_of (int p) (map snd data') (trg_padded b) (trg_lengths b))) \<and>
   (get_train_parallel_loader mk_sampler mk_loader g fs sp tp sv tv bs ws rk = (g2, Inr r) \<and>
    data \<noteq> [] \<longrightarrow>
      (\<exists>p data' b. index sv ''<pad>'' = Inr p \<and> PAD_WORD g2 = int p \<and>
         parallel_collate_fn g2 data = (g2, data', Inr b) \<and>
         is_padding_of (int p) (map fst data') (src_padded b) (src_lengths b) \<and>
         is_padding_of (int p) (map snd data') (trg_padded b) (trg_lengths b))) \<and>
   (get_valid_parallel_loader g fs sp tp sv tv bs = (g1, Inr ldr) \<and>
    get_valid_parallel_loader g1 fs' sp' tp' sv' tv' bs' = (g3, Inr ldr') \<longrightarrow>
      (\<exists>p'. index sv' ''<pad>'' = Inr p' \<and> PAD_WORD g3 = int p')) \<and>
   (ParallelDataset_init fs sp tp sv tv = Inr ds \<longrightarrow>
      (\<exists>p. index sv ''<pad>'' = Inr p \<and>
         fst (get_train_parallel_loader mk_sampler mk_loader g fs sp tp sv tv bs ws rk)
           = g\<lparr>PAD_WORD := int p\<rparr> \<and>
         fst (get_valid_parallel_loader g fs sp tp sv tv bs) = g\<lparr>PAD_WORD := int p\<rparr> \<and>
         (mk_sampler ds ws rk = Inr smp \<and> mk_loader ds bs smp = Inr dl \<longrightarrow>
            get_train_parallel_loader mk_sampler mk_loader g fs sp tp sv tv bs ws rk
              = (g\<lparr>PAD_WORD := int p\<rparr>, Inr (dl, smp))) \<and>
         (0 < bs \<longrightarrow>
            get_valid_parallel_loader g fs sp tp sv tv bs
              = (g\<lparr>PAD_WORD := int p\<rparr>, Inr \<lparr>dataset = ds, batch_size = nat bs\<rparr>)))) \<and>
   (ParallelDataset_init fs sp tp sv tv = Inl err \<longrightarrow>
      get_train_parallel_loader mk_sampler mk_loader g fs sp tp sv tv bs ws rk = (g, Inl err) \<and>
      get_valid_parallel_loader g fs sp tp sv tv bs = (g, Inl err))"
proof -
  have a: "PAD_WORD module_init = - 1" by (simp add: module_init_def)
  have b: "int q \<noteq> - 1" by simp
  have c: "\<exists>data' b. parallel_collate_fn h data = (h, data', Inr b) \<and>
         is_padding_of (PAD_WORD h) (map fst data') (src_padded b) (src_lengths b) \<and>
         is_padding_of (PAD_WORD h) (map snd data') (trg_padded b) (trg_lengths b)"
    if "data \<noteq> []" for h
    using collate_result[OF that, of h] by blast
  have d: "\<exists>p. index w ''<pad>'' = Inr p \<and> PAD_WORD h' = int p"
    if "get_valid_parallel_loader h fs0 sp0 tp0 w tw bs0 = (h', Inr l)" for h h' fs0 sp0 tp0 w tw bs0 l
    using valid_loader_state[OF that] by auto
  have e: "\<exists>p. index sv ''<pad>'' = Inr p \<and> PAD_WORD g2 = int p"
    if "get_train_parallel_loader mk_sampler mk_loader g fs sp tp sv tv bs ws rk = (g2, Inr r)"
    using train_loader_state[OF that] by auto
  have c0: "data \<noteq> [] \<longrightarrow>
      (\<exists>data' b. parallel_collate_fn module_init data = (module_init, data', Inr b) \<and>
         is_padding_of (- 1) (map fst data') (src_padded b) (src_lengths b) \<and>
         is_padding_of (- 1) (map snd data') (trg_padded b) (trg_lengths b))"
    using c[of module_init] a by simp
  have d1: "get_valid_parallel_loader g fs sp tp sv tv bs = (g1, Inr ldr) \<and> data \<noteq> [] \<longrightarrow>
      (\<exists>p data' b. index sv ''<pad>'' = Inr p \<and> PAD_WORD g1 = int p \<and>
         parallel_collate_fn g1 data = (g1, data', Inr b) \<and>
         is_padding_of (int p) (map fst data') (src_padded b) (src_lengths b) \<and>
         is_padding_of (int p) (map snd data') (trg_padded b) (trg_lengths b))"
    using c[of g1] d[of g fs sp tp sv tv bs g1 ldr] by (metis (no_types, lifting))
  have e1: "get_train_parallel_loader mk_sampler mk_loader g fs sp tp sv tv bs ws rk = (g2, Inr r) \<and>
    data \<noteq> [] \<longrightarrow>
      (\<exists>p data' b. index sv ''<pad>'' = Inr p \<and> PAD_WORD g2 = int p \<and>
         parallel_collate_fn g2 data = (g2, data', Inr b) \<and>
         is_padding_of (int p) (map fst data') (src_padded b) (src_lengths b) \<and>
         is_padding_of (int p) (map snd data') (trg_padded b) (trg_lengths b))"
    using c[of g2] e by (metis (no_types, lifting))
  have f: "get_valid_parallel_loader g fs sp tp sv tv bs = (g1, Inr ldr) \<and>
    get_valid_parallel_loader g1 fs' sp' tp' sv' tv' bs' = (g3, Inr ldr') \<longrightarrow>
      (\<exists>p'. index sv' ''<pad>'' = Inr p' \<and> PAD_WORD g3 = int p')"
    using d[of g1 fs' sp' tp' sv' tv' bs' g3 ldr'] by blast
  have k: "ParallelDataset_init fs sp tp sv tv = Inr ds \<longrightarrow>
      (\<exists>p. index sv ''<pad>'' = Inr p \<and>
         fst (get_train_parallel_loader mk_sampler mk_loader g fs sp tp sv tv bs ws rk)
           = g\<lparr>PAD_WORD := int p\<rparr> \<and>
         fst (get_valid_parallel_loader g fs sp tp sv tv bs) = g\<lparr>PAD_WORD := int p\<rparr> \<and>
         (mk_sampler ds ws rk = Inr smp \<and> mk_loader ds bs smp = Inr dl \<longrightarrow>
            get_train_parallel_loader mk_sampler mk_loader g fs sp tp sv tv bs ws rk
              = (g\<lparr>PAD_WORD := int p\<rparr>, Inr (dl, smp))) \<and>
         (0 < bs \<longrightarrow>
            get_valid_parallel_loader g fs sp tp sv tv bs
              = (g\<lparr>PAD_WORD := int p\<rparr>, Inr \<lparr>dataset = ds, batch_size = nat bs\<rparr>)))"
  proof
    assume i: "ParallelDataset_init fs sp tp sv tv = Inr ds"
    from train_loader_effect[OF i, of mk_sampler mk_loader g bs ws rk]
      valid_loader_effect[OF i, of g bs]
    show "\<exists>p. index sv ''<pad>'' = Inr p \<and>
         fst (get_train_parallel_loader mk_sampler mk_loader g fs sp tp sv tv bs ws rk)
           = g\<lparr>PAD_WORD := int p\<rparr> \<and>
         fst (get_valid_parallel_loader g fs sp tp sv tv bs) = g\<lparr>PAD_WORD := int p\<rparr> \<and>
         (mk_sampler ds ws rk = Inr smp \<and> mk_loader ds bs smp = Inr dl \<longrightarrow>
            get_train_parallel_loader mk_sampler mk_loader g fs sp tp sv tv bs ws rk
              = (g\<lparr>PAD_WORD := int p\<rparr>, Inr (dl, smp))) \<and>
         (0 < bs \<longrightarrow>
            get_valid_parallel_loader g fs sp tp sv tv bs
              = (g\<lparr>PAD_WORD := int p\<rparr>, Inr \<lparr>dataset = ds, batch_size = nat bs\<rparr>))"
      by auto
  qed
  have m: "ParallelDataset_init fs sp tp sv tv = Inl err \<longrightarrow>
      get_train_parallel_loader mk_sampler mk_loader g fs sp tp sv tv bs ws rk = (g, Inl err) \<and>
      get_valid_parallel_loader g fs sp tp sv tv bs = (g, Inl err)"
    using factories_without_data_set by blast
  from a b c0 d1 e1 f k m show ?thesis by blast
qed

theorem pad_word_is_module_global_witness:
  "example_pairs \<noteq> [] \<and>
   index scenario_vocab ''<pad>'' = Inr 0 \<and> index other_vocab ''<pad>'' = Inr 2 \<and>
   get_valid_parallel_loader module_init example_fs ''src.txt'' ''trg.txt'' scenario_vocab
       scenario_vocab 2
     = (module_init\<lparr>PAD_WORD := 0\<rparr>,
        Inr \<lparr>dataset = example_dataset scenario_vocab 0, batch_size = 2\<rparr>) \<and>
   get_valid_parallel_loader (module_init\<lparr>PAD_WORD := 0\<rparr>) example_fs ''src.txt'' ''trg.txt''
       other_vocab other_vocab 2
     = (module_init\<lparr>PAD_WORD := 2\<rparr>,
        Inr \<lparr>dataset = example_dataset other_vocab 2, batch_size = 2\<rparr>) \<and>
   (\<exists>data' b. parallel_collate_fn module_init example_pairs = (module_init, data', Inr b) \<and>
       is_padding_of (- 1) (map fst data') (src_padded b) (src_lengths b)) \<and>
   (\<exists>data' b. parallel_collate_fn (module_init\<lparr>PAD_WORD := 0\<rparr>) example_pairs
          = (module_init\<lparr>PAD_WORD := 0\<rparr>, data', Inr b) \<and>
       is_padding_of 0 (map fst data') (src_padded b) (src_lengths b)) \<and>
   (\<exists>p'. index other_vocab ''<pad>'' = Inr p' \<and> PAD_WORD (module_init\<lparr>PAD_WORD := 2\<rparr>) = int p') \<and>
   ParallelDataset_init example_fs ''src.txt'' ''trg.txt'' other_vocab other_vocab
     = Inr (example_dataset other_vocab 2) \<and>
   get_train_parallel_loader (\<lambda>ds w r. Inr (w, r)) (\<lambda>ds b s. Inr (ds, b))
       (module_init\<lparr>PAD_WORD := 0\<rparr>) example_fs ''src.txt'' ''trg.txt'' other_vocab other_vocab
       2 4 0
     = (module_init\<lparr>PAD_WORD := 2\<rparr>, Inr ((example_dataset other_vocab 2, 2), (4, 0))) \<and>
   fst (get_train_parallel_loader (\<lambda>ds w r. Inl ValueError :: error + unit) (\<lambda>ds b s. Inr (ds, b))
          (module_init\<lparr>PAD_WORD := 0\<rparr>) example_fs ''src.txt'' ''trg.txt'' other_vocab
          other_vocab 2 4 9)
     = module_init\<lparr>PAD_WORD := 2\<rparr> \<and>
   (\<exists>data' b. parallel_collate_fn (module_init\<lparr>PAD_WORD := 2\<rparr>) example_pairs
          = (module_init\<lparr>PAD_WORD := 2\<rparr>, data', Inr b) \<and>
       is_padding_of 2 (map fst data') (src_padded b) (src_lengths b)) \<and>
   ParallelDataset_init example_fs ''missing.txt'' ''trg.txt'' other_vocab other_vocab
     = Inl FileNotFoundError \<and>
   get_train_parallel_loader (\<lambda>ds w r. Inr (w, r)) (\<lambda>ds b s. Inr (ds, b))
       (module_init\<lparr>PAD_WORD := 0\<rparr>) example_fs ''missing.txt'' ''trg.txt'' other_vocab
       other_vocab 2 4 0
     = (module_init\<lparr>PAD_WORD := 0\<rparr>, Inl FileNotFoundError)"
proof -
  let ?g0 = "module_init\<lparr>PAD_WORD := 0\<rparr>"
  let ?g2 = "module_init\<lparr>PAD_WORD := 2\<rparr>"
  let ?ds = "example_dataset other_vocab 2"
  have ne: "example_pairs \<noteq> []" by (simp add: example_pairs_def)
  have v2: "get_valid_parallel_loader ?g0 example_fs ''src.txt''
       ''trg.txt'' other_vocab other_vocab 2
     = (?g2, Inr \<lparr>dataset = ?ds, batch_size = 2\<rparr>)"
    using example_valid_loader_other[of ?g0] by simp
  have t: "get_train_parallel_loader (\<lambda>ds w r. Inr (w, r)) (\<lambda>ds b s. Inr (ds, b)) module_init
      example_fs ''src.txt'' ''trg.txt'' scenario_vocab scenario_vocab 2 4 0
     = (?g0, Inr ((example_dataset scenario_vocab 0, 2), (4, 0)))"
    by (simp add: get_train_parallel_loader_def example_init example_pad_index)
  note inst = pad_word_is_module_global[where v = scenario_vocab and q = 0
      and data = example_pairs and g = module_init and fs = example_fs
      and sp = "''src.txt''" and tp = "''trg.txt''" and sv = scenario_vocab
      and tv = scenario_vocab and bs = 2 and ?g1.0 = ?g0
      and ldr = "\<lparr>dataset = example_dataset scenario_vocab 0, batch_size = 2\<rparr>"
      and mk_sampler = "\<lambda>ds w r. Inr (w, r)"
      and mk_loader = "\<lambda>ds b s. Inr (ds, b)" and ws = 4 and rk = 0 and ?g2.0 = ?g0
      and r = "((example_dataset scenario_vocab 0, 2), (4, 0))" and fs' = example_fs
      and sp' = "''src.txt''" and tp' = "''trg.txt''" and sv' = other_vocab
      and tv' = other_vocab and bs' = 2 and ?g3.0 = ?g2
      and ldr' = "\<lparr>dataset = example_dataset other_vocab 2, batch_size = 2\<rparr>"
      and ds = "example_dataset scenario_vocab 0" and smp = "(4, 0)"
      and dl = "(example_dataset scenario_vocab 0, 2)" and err = FileNotFoundError]
  from inst ne example_pad_index example_valid_loader[of module_init] v2 t
  have first: "(\<exists>data' b. parallel_collate_fn module_init example_pairs
          = (module_init, data', Inr b) \<and>
       is_padding_of (- 1) (map fst data') (src_padded b) (src_lengths b)) \<and>
   (\<exists>data' b. parallel_collate_fn ?g0 example_pairs = (?g0, data', Inr b) \<and>
       is_padding_of 0 (map fst data') (src_padded b) (src_lengths b)) \<and>
   (\<exists>p'. index other_vocab ''<pad>'' = Inr p' \<and> PAD_WORD ?g2 = int p')"
    by auto
  note trained = pad_word_is_module_global[where v = other_vocab and q = 2
      and data = example_pairs and g = ?g0 and fs = example_fs and sp = "''src.txt''"
      and tp = "''trg.txt''" and sv = other_vocab and tv = other_vocab and bs = 2
      and ?g1.0 = ?g2 and ldr = "\<lparr>dataset = ?ds, batch_size = 2\<rparr>"
      and mk_sampler = "\<lambda>ds w r. Inr (w, r)"
      and mk_loader = "\<lambda>ds b s. Inr (ds, b)" and ws = 4 and rk = 0 and ?g2.0 = ?g2
      and r = "((?ds, 2), (4, 0))" and fs' = example_fs and sp' = "''src.txt''"
      and tp' = "''trg.txt''" and sv' = other_vocab and tv' = other_vocab and bs' = 2
      and ?g3.0 = ?g2
      and ldr' = "\<lparr>dataset = example_dataset other_vocab 2, batch_size = 2\<rparr>"
      and ds = ?ds and smp = "(4, 0)" and dl = "(?ds, 2)" and err = FileNotFoundError]
  from trained example_init_other example_pad_index
  have tr: "get_train_parallel_loader (\<lambda>ds w r. Inr (w, r)) (\<lambda>ds b s. Inr (ds, b)) ?g0
       example_fs ''src.txt'' ''trg.txt'' other_vocab other_vocab 2 4 0
     = (?g2, Inr ((?ds, 2), (4, 0)))"
    by auto
  from trained tr ne example_pad_index
  have pad2: "\<exists>data' b. parallel_collate_fn ?g2 example_pairs = (?g2, data', Inr b) \<and>
       is_padding_of 2 (map fst data') (src_padded b) (src_lengths b)"
    by auto
  note refused = pad_word_is_module_global[where v = other_vocab and q = 2
      and data = example_pairs and g = ?g0 and fs = example_fs and sp = "''src.txt''"
      and tp = "''trg.txt''" and sv = other_vocab and tv = other_vocab and bs = 2
      and ?g1.0 = ?g2 and ldr = "\<lparr>dataset = ?ds, batch_size = 2\<rparr>"
      and mk_sampler = "\<lambda>ds w r. Inl ValueError :: error + unit"
      and mk_loader = "\<lambda>ds b s. Inr (ds, b)" and ws = 4 and rk = 9 and ?g2.0 = ?g2
      and r = "((?ds, 2), ())" and fs' = example_fs and sp' = "''src.txt''"
      and tp' = "''trg.txt''" and sv' = other_vocab and tv' = other_vocab and bs' = 2
      and ?g3.0 = ?g2
      and ldr' = "\<lparr>dataset = example_dataset other_vocab 2, batch_size = 2\<rparr>"
      and ds = ?ds and smp = "()" and dl = "(?ds, 2)" and err = FileNotFoundError]
  note refused_init = refused[THEN conjunct2, THEN conjunct2, THEN conjunct2, THEN conjunct2, THEN conjunct2, THEN conjunct2,
      THEN conjunct1]
  from refused_init example_init_other example_pad_index
  have rf: "fst (get_train_parallel_loader (\<lambda>ds w r. Inl ValueError :: error + unit) (\<lambda>ds b s. Inr (ds, b))
          ?g0 example_fs ''src.txt'' ''trg.txt'' other_vocab other_vocab 2 4 9) = ?g2"
    by auto
  note missing = pad_word_is_module_global[where v = other_vocab and q = 2
      and data = example_pairs and g = ?g0 and fs = example_fs and sp = "''missing.txt''"
      and tp = "''trg.txt''" and sv = other_vocab and tv = other_vocab and bs = 2
      and ?g1.0 = ?g2 and ldr = "\<lparr>dataset = ?ds, batch_size = 2\<rparr>"
      and mk_sampler = "\<lambda>ds w r. Inr (w, r)"
      and mk_loader = "\<lambda>ds b s. Inr (ds, b)" and ws = 4 and rk = 0 and ?g2.0 = ?g2
      and r = "((?ds, 2), (4, 0))" and fs' = example_fs and sp' = "''src.txt''"
      and tp' = "''trg.txt''" and sv' = other_vocab and tv' = other_vocab and bs' = 2
      and ?g3.0 = ?g2
      and ldr' = "\<lparr>dataset = example_dataset other_vocab 2, batch_size = 2\<rparr>"
      and ds = ?ds and smp = "(4, 0)" and dl = "(?ds, 2)" and err = FileNotFoundError]
  note missing_init = missing[THEN conjunct2, THEN conjunct2, THEN conjunct2, THEN conjunct2, THEN conjunct2, THEN conjunct2,
      THEN conjunct2]
  from missing_init example_missing_file
  have ms: "get_train_parallel_loader (\<lambda>ds w r. Inr (w, r)) (\<lambda>ds b s. Inr (ds, b)) ?g0
       example_fs ''missing.txt'' ''trg.txt'' other_vocab other_vocab 2 4 0
     = (?g0, Inl FileNotFoundError)"
    by blast
  from first[THEN conjunct1] first[THEN conjunct2, THEN conjunct1]
    first[THEN conjunct2, THEN conjunct2] ne example_pad_index
    example_valid_loader[of module_init] v2 example_init_other tr rf pad2
    example_missing_file ms
  show ?thesis by - (intro conjI; assumption)
qed

subsection \<open>The validation loader\<close>

declare batch_indices.simps [simp del]

lemma batch_indices_map: "batch_indices bs (map f xs) = map (map f) (batch_indices bs xs)"
proof (induction bs xs rule: batch_indices.induct)
  case (1 bs idxs)
  show ?case
  proof (cases "bs = 0 \<or> idxs = []")
    case True
    then show ?thesis by (auto simp: batch_indices.simps)
  next
    case False
    with 1 have "batch_indices bs (map f (drop bs idxs)) = map (map f) (batch_indices bs (drop bs idxs))"
      by simp
    with False show ?thesis
      by (subst batch_indices.simps, subst (2) batch_indices.simps) (simp add: take_map drop_map)
  qed
qed

lemma batch_indices_concat: "0 < bs \<Longrightarrow> concat (batch_indices bs xs) = xs"
proof (induction bs xs rule: batch_indices.induct)
  case (1 bs idxs)
  show ?case
  proof (cases "idxs = []")
    case True then show ?thesis by (simp add: batch_indices.simps)
  next
    case False
    with 1 have "concat (batch_indices bs (drop bs idxs)) = drop bs idxs" by simp
    with False 1(2) show ?thesis by (subst batch_indices.simps) simp
  qed
qed

lemma batch_indices_chunk:
  "c \<in> set (batch_indices bs xs) \<Longrightarrow> c \<noteq> [] \<and> length c \<le> bs \<and> set c \<subseteq> set xs"
proof (induction bs xs rule: batch_indices.induct)
  case (1 bs idxs)
  show ?case
  proof (cases "bs = 0 \<or> idxs = []")
    case True with 1(2) show ?thesis by (simp add: batch_indices.simps)
  next
    case False
    with 1(2) have "c = take bs idxs \<or> c \<in> set (batch_indices bs (drop bs idxs))"
      by (subst (asm) batch_indices.simps) auto
    then show ?thesis
    proof
      assume "c = take bs idxs"
      with False show ?thesis by (auto dest: in_set_takeD)
    next
      assume "c \<in> set (batch_indices bs (drop bs idxs))"
      with 1(1) False have "c \<noteq> [] \<and> length c \<le> bs \<and> set c \<subseteq> set (drop bs idxs)" by simp
      then show ?thesis by (auto dest: in_set_dropD)
    qed
  qed
qed

lemma fetch_items_ok:
  "\<forall>i \<in> set idxs. getitem ds (int i) = Inr (items ! i) \<Longrightarrow>
   fetch_items ds (map int idxs) = Inr (map ((!) items) idxs)"
  by (induction idxs) auto

lemma run_batches_ok:
  assumes "\<forall>c \<in> set chunks. c \<noteq> [] \<and> (\<forall>i \<in> set c. getitem ds (int i) = Inr (items ! i))"
  shows "\<exists>batches. run_batches g ds (map (map int) chunks) = (g, batches, None) \<and>
           length batches = length chunks \<and>
           (\<forall>k < length chunks.
              (\<exists>data'. parallel_collate_fn g (map ((!) items) (chunks ! k))
                         = (g, data', Inr (batches ! k))) \<and>
              length (src_padded (batches ! k)) = length (chunks ! k) \<and>
              length (trg_padded (batches ! k)) = length (chunks ! k))"
  using assms
proof (induction chunks)
  case Nil then show ?case by simp
next
  case (Cons c cs)
  let ?data = "map ((!) items) c"
  let ?d = "list_sort (\<lambda>x. length (fst x)) True ?data"
  from Cons.prems have c: "c \<noteq> []" "\<forall>i \<in> set c. getitem ds (int i) = Inr (items ! i)" by auto
  have fi: "fetch_items ds (map int c) = Inr ?data" using c(2) by (rule fetch_items_ok)
  have ne: "?data \<noteq> []" using c(1) by simp
  from collate_result[OF ne, of g] obtain b where
    b: "parallel_collate_fn g ?data = (g, ?d, Inr b)"
       "is_padding_of (PAD_WORD g) (map fst ?d) (src_padded b) (src_lengths b)"
       "is_padding_of (PAD_WORD g) (map snd ?d) (trg_padded b) (trg_lengths b)"
    by blast
  have lb: "length (src_padded b) = length c" "length (trg_padded b) = length c"
    using b(2,3) by (simp_all add: is_padding_of_def list_sort_length)
  have f: "fetch g ds (map int c) = (g, Inr b)" using fi b(1) by (simp add: fetch_def)
  from Cons obtain bs where
    bs: "run_batches g ds (map (map int) cs) = (g, bs, None)" "length bs = length cs"
        "\<forall>k < length cs.
              (\<exists>data'. parallel_collate_fn g (map ((!) items) (cs ! k))
                         = (g, data', Inr (bs ! k))) \<and>
              length (src_padded (bs ! k)) = length (cs ! k) \<and>
              length (trg_padded (bs ! k)) = length (cs ! k)"
    by auto
  have r: "run_batches g ds (map (map int) (c # cs)) = (g, b # bs, None)"
    using f bs(1) by simp
  have "\<forall>k < length (c # cs).
              (\<exists>data'. parallel_collate_fn g (map ((!) items) ((c # cs) ! k))
                         = (g, data', Inr ((b # bs) ! k))) \<and>
              length (src_padded ((b # bs) ! k)) = length ((c # cs) ! k) \<and>
              length (trg_padded ((b # bs) ! k)) = length ((c # cs) ! k)"
    using b(1) lb bs(3) by (auto simp: nth_Cons split: nat.splits)
  with r bs(2) show ?case by auto
qed

lemma batch_indices_5_2: "batch_indices 2 [0 ..< 5] = [[0, 1], [2, 3], [4::nat]]"
  by (simp add: batch_indices.simps upt_rec)

text \<open>
  Claim C7. When every pair of the data set can be encoded, iterating the loader that
  \<^verbatim>\<open>get_valid_parallel_loader\<close> returns yields one batch per group of indices and ends
  without exception; the groups are the consecutive runs of \<^verbatim>\<open>batch_size\<close> indices of
  \<open>0 .. len - 1\<close> in order, and batch \<open>k\<close> is assembled from the pairs at the indices of
  group \<open>k\<close>. With five pairs and batch size 2 the groups are \<open>[0,1]\<close>, \<open>[2,3]\<close>, \<open>[4]\<close>
  and the batches have 2, 2 and 1 rows.
\<close>

theorem valid_loader_is_sequential:
  assumes "get_valid_parallel_loader g fs sp tp sv tv bs = (g', Inr ldr)"
    and "length items = len_dataset (dataset ldr)"
    and "\<forall>i < len_dataset (dataset ldr). getitem (dataset ldr) (int i) = Inr (items ! i)"
  shows "\<exists>batches. iterate g' ldr = (g', batches, None) \<and>
           concat (batch_indices (nat bs) [0 ..< length items]) = [0 ..< length items] \<and>
           length batches = length (batch_indices (nat bs) [0 ..< length items]) \<and>
           (\<forall>k < length batches.
              (\<exists>data'. parallel_collate_fn g'
                          (map ((!) items) (batch_indices (nat bs) [0 ..< length items] ! k))
                        = (g', data', Inr (batches ! k))) \<and>
              length (src_padded (batches ! k))
                = length (batch_indices (nat bs) [0 ..< length items] ! k) \<and>
              length (trg_padded (batches ! k))
                = length (batch_indices (nat bs) [0 ..< length items] ! k)) \<and>
           (length items = 5 \<and> bs = 2 \<longrightarrow>
              batch_indices (nat bs) [0 ..< length items] = [[0, 1], [2, 3], [4]] \<and>
              map (length \<circ> src_padded) batches = [2, 2, 1])"
proof -
  let ?n = "length items"
  let ?chunks = "batch_indices (nat bs) [0 ..< ?n]"
  from valid_loader_state[OF assms(1)] have pos: "0 < bs" and l: "batch_size ldr = nat bs"
    by auto
  have it: "iterate g' ldr = run_batches g' (dataset ldr) (map (map int) ?chunks)"
    using l assms(2) by (simp add: iterate_def batch_indices_map)
  have ok: "\<forall>c \<in> set ?chunks. c \<noteq> [] \<and>
              (\<forall>i \<in> set c. getitem (dataset ldr) (int i) = Inr (items ! i))"
  proof
    fix c assume "c \<in> set ?chunks"
    from batch_indices_chunk[OF this] assms(2,3) show
      "c \<noteq> [] \<and> (\<forall>i \<in> set c. getitem (dataset ldr) (int i) = Inr (items ! i))"
      by auto
  qed
  from run_batches_ok[OF ok, of g'] obtain batches where
    b: "run_batches g' (dataset ldr) (map (map int) ?chunks) = (g', batches, None)"
       "length batches = length ?chunks"
       "\<forall>k < length ?chunks.
              (\<exists>data'. parallel_collate_fn g' (map ((!) items) (?chunks ! k))
                         = (g', data', Inr (batches ! k))) \<and>
              length (src_padded (batches ! k)) = length (?chunks ! k) \<and>
              length (trg_padded (batches ! k)) = length (?chunks ! k)"
    by blast
  have cc: "concat ?chunks = [0 ..< ?n]" using pos by (simp add: batch_indices_concat)
  have sizes: "map (length \<circ> src_padded) batches = map length ?chunks"
    using b(2,3) by (intro nth_equalityI) auto
  have five: "?chunks = [[0, 1], [2, 3], [4]] \<and> map (length \<circ> src_padded) batches = [2, 2, 1]"
    if "?n = 5" "bs = 2"
    using sizes that batch_indices_5_2 by simp
  from it b cc five show ?thesis by auto
qed

theorem valid_loader_is_sequential_witness:
  "get_valid_parallel_loader module_init example_fs ''src.txt'' ''trg.txt'' scenario_vocab
       scenario_vocab 2
     = (module_init\<lparr>PAD_WORD := 0\<rparr>,
        Inr \<lparr>dataset = example_dataset scenario_vocab 0, batch_size = 2\<rparr>) \<and>
   length example_items = len_dataset (example_dataset scenario_vocab 0) \<and>
   getitem (example_dataset scenario_vocab 0) 0 = Inr (example_items ! 0) \<and>
   getitem (example_dataset scenario_vocab 0) 1 = Inr (example_items ! 1) \<and>
   getitem (example_dataset scenario_vocab 0) 2 = Inr (example_items ! 2) \<and>
   getitem (example_dataset scenario_vocab 0) 3 = Inr (example_items ! 3) \<and>
   getitem (example_dataset scenario_vocab 0) 4 = Inr (example_items ! 4) \<and>
   (\<exists>batches. iterate (module_init\<lparr>PAD_WORD := 0\<rparr>)
                 \<lparr>dataset = example_dataset scenario_vocab 0, batch_size = 2\<rparr>
               = (module_init\<lparr>PAD_WORD := 0\<rparr>, batches, None) \<and>
       map (length \<circ> src_padded) batches = [2, 2, 1])"
proof -
  let ?ds = "example_dataset scenario_vocab 0"
  let ?ldr = "\<lparr>dataset = ?ds, batch_size = 2\<rparr>"
  have l: "len_dataset ?ds = 5" by (simp add: len_dataset_def example_dataset_def)
  have a: "get_valid_parallel_loader module_init example_fs ''src.txt'' ''trg.txt''
             scenario_vocab scenario_vocab 2 = (module_init\<lparr>PAD_WORD := 0\<rparr>, Inr ?ldr)"
    by (rule example_valid_loader)
  have b: "length example_items = len_dataset (dataset ?ldr)"
    using l by (simp add: example_items_def)
  have c: "\<forall>i < len_dataset (dataset ?ldr). getitem (dataset ?ldr) (int i) = Inr (example_items ! i)"
    using l example_getitem by simp
  have n: "length example_items = 5" by (simp add: example_items_def)
  have e: "getitem ?ds 0 = Inr (example_items ! 0)" "getitem ?ds 1 = Inr (example_items ! 1)"
          "getitem ?ds 2 = Inr (example_items ! 2)" "getitem ?ds 3 = Inr (example_items ! 3)"
          "getitem ?ds 4 = Inr (example_items ! 4)"
    using example_getitem[of 0] example_getitem[of 1] example_getitem[of 2]
      example_getitem[of 3] example_getitem[of 4] by simp_all
  from valid_loader_is_sequential[OF a b c] n a b e show ?thesis
    by auto
qed

end
